theory Spec2Isabelle
  imports Complex_Main
begin

section \<open>Text: Python strings as lists of code points\<close>

text \<open>
  A Python \<open>str\<close> is a sequence of Unicode code points, so a text is a list of natural
  numbers, one per code point. The characters that the parsers name are given by their
  code points; the names below are the usual romanisations.
\<close>

type_synonym codepoint = nat
type_synonym ustring = "codepoint list"

abbreviation c_ling :: codepoint where "c_ling \<equiv> 0x96F6"
abbreviation c_yi :: codepoint where "c_yi \<equiv> 0x4E00"
abbreviation c_er :: codepoint where "c_er \<equiv> 0x4E8C"
abbreviation c_san :: codepoint where "c_san \<equiv> 0x4E09"
abbreviation c_si :: codepoint where "c_si \<equiv> 0x56DB"
abbreviation c_wu :: codepoint where "c_wu \<equiv> 0x4E94"
abbreviation c_liu :: codepoint where "c_liu \<equiv> 0x516D"
abbreviation c_qi :: codepoint where "c_qi \<equiv> 0x4E03"
abbreviation c_ba :: codepoint where "c_ba \<equiv> 0x516B"
abbreviation c_jiu :: codepoint where "c_jiu \<equiv> 0x4E5D"
abbreviation c_shi :: codepoint where "c_shi \<equiv> 0x5341"
abbreviation c_bai :: codepoint where "c_bai \<equiv> 0x767E"
abbreviation c_qian :: codepoint where "c_qian \<equiv> 0x5343"
abbreviation c_wan :: codepoint where "c_wan \<equiv> 0x842C"
abbreviation c_liang :: codepoint where "c_liang \<equiv> 0x5169"
abbreviation c_liang_simplified :: codepoint where "c_liang_simplified \<equiv> 0x4E24"

abbreviation c_ri :: codepoint where "c_ri \<equiv> 0x65E5"
abbreviation c_tian :: codepoint where "c_tian \<equiv> 0x5929"
abbreviation c_jin :: codepoint where "c_jin \<equiv> 0x4ECA"
abbreviation c_zuo :: codepoint where "c_zuo \<equiv> 0x6628"
abbreviation c_qian_before :: codepoint where "c_qian_before \<equiv> 0x524D"
abbreviation c_da :: codepoint where "c_da \<equiv> 0x5927"
abbreviation c_ming :: codepoint where "c_ming \<equiv> 0x660E"
abbreviation c_zhou :: codepoint where "c_zhou \<equiv> 0x9031"
abbreviation c_shang :: codepoint where "c_shang \<equiv> 0x4E0A"
abbreviation c_zhe :: codepoint where "c_zhe \<equiv> 0x9019"
abbreviation c_xia :: codepoint where "c_xia \<equiv> 0x4E0B"
abbreviation c_ge :: codepoint where "c_ge \<equiv> 0x500B"
abbreviation c_yue :: codepoint where "c_yue \<equiv> 0x6708"
abbreviation c_hao :: codepoint where "c_hao \<equiv> 0x865F"
abbreviation c_nian :: codepoint where "c_nian \<equiv> 0x5E74"
abbreviation c_ben :: codepoint where "c_ben \<equiv> 0x672C"
abbreviation c_jin_near :: codepoint where "c_jin_near \<equiv> 0x8FD1"

abbreviation c_yuan :: codepoint where "c_yuan \<equiv> 0x5143"
abbreviation c_kuai :: codepoint where "c_kuai \<equiv> 0x584A"
abbreviation c_qian_money :: codepoint where "c_qian_money \<equiv> 0x9322"
abbreviation c_dollar :: codepoint where "c_dollar \<equiv> 0x24"
abbreviation c_dot :: codepoint where "c_dot \<equiv> 0x2E"
abbreviation c_slash :: codepoint where "c_slash \<equiv> 0x2F"
abbreviation c_hyphen :: codepoint where "c_hyphen \<equiv> 0x2D"
abbreviation c_space :: codepoint where "c_space \<equiv> 0x20"
abbreviation c_newline :: codepoint where "c_newline \<equiv> 0x0A"

abbreviation c_wu_noon :: codepoint where "c_wu_noon \<equiv> 0x5348"
abbreviation c_can :: codepoint where "c_can \<equiv> 0x9910"
abbreviation c_yin :: codepoint where "c_yin \<equiv> 0x98F2"
abbreviation c_shou :: codepoint where "c_shou \<equiv> 0x6536"
abbreviation c_ru :: codepoint where "c_ru \<equiv> 0x5165"
abbreviation c_qi_other :: codepoint where "c_qi_other \<equiv> 0x5176"
abbreviation c_ta :: codepoint where "c_ta \<equiv> 0x4ED6"
abbreviation c_hui :: codepoint where "c_hui \<equiv> 0x56DE"
abbreviation c_kou :: codepoint where "c_kou \<equiv> 0x53E3"
abbreviation c_hua :: codepoint where "c_hua \<equiv> 0x82B1"
abbreviation c_le :: codepoint where "c_le \<equiv> 0x4E86"
abbreviation c_duo :: codepoint where "c_duo \<equiv> 0x591A"
abbreviation c_shao :: codepoint where "c_shao \<equiv> 0x5C11"
abbreviation c_gong :: codepoint where "c_gong \<equiv> 0x5171"
abbreviation c_mai :: codepoint where "c_mai \<equiv> 0x8CB7"

abbreviation c_tu_chart :: codepoint where "c_tu_chart \<equiv> 0x5716"
abbreviation c_yuan_round :: codepoint where "c_yuan_round \<equiv> 0x5713"
abbreviation c_bing :: codepoint where "c_bing \<equiv> 0x9905"
abbreviation c_bi :: codepoint where "c_bi \<equiv> 0x6BD4"
abbreviation c_li :: codepoint where "c_li \<equiv> 0x4F8B"
abbreviation c_zhe_fold :: codepoint where "c_zhe_fold \<equiv> 0x6298"
abbreviation c_xian :: codepoint where "c_xian \<equiv> 0x7DDA"
abbreviation c_qu :: codepoint where "c_qu \<equiv> 0x8DA8"
abbreviation c_shi_trend :: codepoint where "c_shi_trend \<equiv> 0x52E2"
abbreviation c_chang :: codepoint where "c_chang \<equiv> 0x9577"
abbreviation c_tiao :: codepoint where "c_tiao \<equiv> 0x689D"
abbreviation c_zhu :: codepoint where "c_zhu \<equiv> 0x67F1"
abbreviation c_zhuang :: codepoint where "c_zhuang \<equiv> 0x72C0"
abbreviation c_bian :: codepoint where "c_bian \<equiv> 0x8B8A"
abbreviation c_hua_change :: codepoint where "c_hua_change \<equiv> 0x5316"
abbreviation c_jiao :: codepoint where "c_jiao \<equiv> 0x8F03"
abbreviation c_dui :: codepoint where "c_dui \<equiv> 0x5C0D"
abbreviation c_cha :: codepoint where "c_cha \<equiv> 0x67E5"
abbreviation c_xun :: codepoint where "c_xun \<equiv> 0x8A62"
abbreviation c_tong :: codepoint where "c_tong \<equiv> 0x7D71"
abbreviation c_ji :: codepoint where "c_ji \<equiv> 0x8A08"
abbreviation c_bao :: codepoint where "c_bao \<equiv> 0x5831"
abbreviation c_gao :: codepoint where "c_gao \<equiv> 0x544A"
abbreviation c_biao :: codepoint where "c_biao \<equiv> 0x8868"
abbreviation c_fen :: codepoint where "c_fen \<equiv> 0x5206"
abbreviation c_xi :: codepoint where "c_xi \<equiv> 0x6790"
abbreviation c_shi_is :: codepoint where "c_shi_is \<equiv> 0x662F"
abbreviation c_bu :: codepoint where "c_bu \<equiv> 0x4E0D"
abbreviation c_ying :: codepoint where "c_ying \<equiv> 0x61C9"
abbreviation c_gai :: codepoint where "c_gai \<equiv> 0x8A72"
abbreviation c_jian :: codepoint where "c_jian \<equiv> 0x5EFA"
abbreviation c_yi_advise :: codepoint where "c_yi_advise \<equiv> 0x8B70"
abbreviation c_bang :: codepoint where "c_bang \<equiv> 0x5E6B"
abbreviation c_wo :: codepoint where "c_wo \<equiv> 0x6211"
abbreviation c_wei :: codepoint where "c_wei \<equiv> 0x70BA"
abbreviation c_shen :: codepoint where "c_shen \<equiv> 0x4EC0"
abbreviation c_me :: codepoint where "c_me \<equiv> 0x9EBC"
abbreviation c_zen :: codepoint where "c_zen \<equiv> 0x600E"
abbreviation c_ru_as :: codepoint where "c_ru_as \<equiv> 0x5982"
abbreviation c_he :: codepoint where "c_he \<equiv> 0x4F55"
abbreviation c_ping :: codepoint where "c_ping \<equiv> 0x860B"
abbreviation c_guo :: codepoint where "c_guo \<equiv> 0x679C"

subsection \<open>Character classes of the \<open>re\<close> module\<close>

text \<open>
  In a \<open>str\<close> pattern \<open>\d\<close> matches the characters of Unicode category Nd. They come in
  runs of ten, zero to nine; \<open>digit_zeros\<close> lists the zero of each run (Unicode 14.0).
  \<open>int\<close> and \<open>float\<close> read every such digit with its decimal value.
\<close>

definition digit_zeros :: "codepoint list" where
  "digit_zeros =
    [0x30, 0x660, 0x6F0, 0x7C0, 0x966, 0x9E6, 0xA66, 0xAE6, 0xB66, 0xBE6, 0xC66, 0xCE6,
     0xD66, 0xDE6, 0xE50, 0xED0, 0xF20, 0x1040, 0x1090, 0x17E0, 0x1810, 0x1946, 0x19D0,
     0x1A80, 0x1A90, 0x1B50, 0x1BB0, 0x1C40, 0x1C50, 0xA620, 0xA8D0, 0xA900, 0xA9D0,
     0xA9F0, 0xAA50, 0xABF0, 0xFF10, 0x104A0, 0x10D30, 0x11066, 0x110F0, 0x11136,
     0x111D0, 0x112F0, 0x11450, 0x114D0, 0x11650, 0x116C0, 0x11730, 0x118E0, 0x11950,
     0x11C50, 0x11D50, 0x11DA0, 0x16A60, 0x16AC0, 0x16B50, 0x1D7CE, 0x1D7D8, 0x1D7E2,
     0x1D7EC, 0x1D7F6, 0x1E140, 0x1E2F0, 0x1E950, 0x1FBF0]"

definition is_decimal :: "codepoint \<Rightarrow> bool" where
  "is_decimal c = list_ex (\<lambda>z. z \<le> c \<and> c < z + 10) digit_zeros"

definition digit_value :: "codepoint \<Rightarrow> int" where
  "digit_value c =
     (case filter (\<lambda>z. z \<le> c \<and> c < z + 10) digit_zeros of
        [] \<Rightarrow> 0
      | z # _ \<Rightarrow> int (c - z))"

text \<open>\<open>\s\<close> and \<open>str.strip\<close> use the Unicode whitespace characters.\<close>

definition whitespace_chars :: "codepoint list" where
  "whitespace_chars =
    [0x9, 0xA, 0xB, 0xC, 0xD, 0x1C, 0x1D, 0x1E, 0x1F, 0x20, 0x85, 0xA0, 0x1680,
     0x2000, 0x2001, 0x2002, 0x2003, 0x2004, 0x2005, 0x2006, 0x2007, 0x2008, 0x2009,
     0x200A, 0x2028, 0x2029, 0x202F, 0x205F, 0x3000]"

definition is_space :: "codepoint \<Rightarrow> bool" where
  "is_space c = (c \<in> set whitespace_chars)"

subsection \<open>String operations\<close>

fun starts_with :: "ustring \<Rightarrow> ustring \<Rightarrow> bool" where
  "starts_with xs [] = True"
| "starts_with [] (y # ys) = False"
| "starts_with (x # xs) (y # ys) = (x = y \<and> starts_with xs ys)"

text \<open>\<open>contains text s\<close> is Python's \<open>s in text\<close>.\<close>

fun contains :: "ustring \<Rightarrow> ustring \<Rightarrow> bool" where
  "contains [] s = (s = [])"
| "contains (x # xs) s = (starts_with (x # xs) s \<or> contains xs s)"

definition strip :: "ustring \<Rightarrow> ustring" where
  "strip s = rev (dropWhile is_space (rev (dropWhile is_space s)))"

text \<open>\<open>split_on c s\<close> is \<open>s.split(c)\<close> for a one-character separator.\<close>

fun split_on :: "codepoint \<Rightarrow> ustring \<Rightarrow> ustring list" where
  "split_on c [] = [[]]"
| "split_on c (x # xs) =
     (case split_on c xs of
        [] \<Rightarrow> [[]]
      | p # ps \<Rightarrow> if x = c then [] # p # ps else (x # p) # ps)"

text \<open>\<open>replace_empty kw s\<close> is \<open>s.replace(kw, '')\<close>.\<close>

function replace_empty :: "ustring \<Rightarrow> ustring \<Rightarrow> ustring" where
  "replace_empty kw [] = []"
| "replace_empty kw (x # xs) =
     (if kw \<noteq> [] \<and> starts_with (x # xs) kw
      then replace_empty kw (drop (length kw) (x # xs))
      else x # replace_empty kw xs)"
  by pat_completeness auto
termination
  by (relation "measure (\<lambda>(kw, xs). length xs)") auto

text \<open>\<open>py_split s\<close> is \<open>s.split()\<close>, the maximal runs without whitespace, and
  \<open>join_spaces ws\<close> is \<open>' '.join(ws)\<close>.\<close>

function py_split :: "ustring \<Rightarrow> ustring list" where
  "py_split [] = []"
| "py_split (x # xs) =
     (if is_space x then py_split xs
      else (x # takeWhile (\<lambda>c. \<not> is_space c) xs)
             # py_split (dropWhile (\<lambda>c. \<not> is_space c) xs))"
  by pat_completeness auto
termination
proof (relation "measure length")
  show "wf (measure length)" by simp
next
  fix x :: codepoint and xs :: ustring
  show "(xs, x # xs) \<in> measure length" by simp
next
  fix x :: codepoint and xs :: ustring
  have "length (dropWhile (\<lambda>c. \<not> is_space c) xs) \<le> length xs"
    by (rule length_dropWhile_le)
  then show "(dropWhile (\<lambda>c. \<not> is_space c) xs, x # xs) \<in> measure length" by simp
qed

fun join_spaces :: "ustring list \<Rightarrow> ustring" where
  "join_spaces [] = []"
| "join_spaces [w] = w"
| "join_spaces (w # w' # ws) = w @ [c_space] @ join_spaces (w' # ws)"

text \<open>
  \<open>int(s)\<close> and \<open>float(s)\<close> on the strings the patterns capture: a run of decimal digits,
  and a run of decimal digits with an optional fraction. The value of a \<open>float\<close> is kept
  as the exact rational it denotes: the rounding to a double, and the infinity that
  \<open>float\<close> gives for a digit string beyond the range of doubles, are not modelled, and
  no property below turns on them. The limit that recent interpreters put on the
  length of the argument of \<open>int\<close> is not modelled either.
\<close>

definition py_int :: "ustring \<Rightarrow> int" where
  "py_int s = foldl (\<lambda>acc c. acc * 10 + digit_value c) 0 s"

definition py_float :: "ustring \<Rightarrow> rat" where
  "py_float s =
     (let ip = takeWhile (\<lambda>c. c \<noteq> c_dot) s;
          fp = drop (length ip + 1) s
      in of_int (py_int ip) + of_int (py_int fp) / 10 ^ length fp)"

text \<open>
  \<open>str.isdigit\<close> is only ever applied to a captured group that is either a run of
  \<open>\d\<close> characters or a run of Chinese numerals, and it holds of the former only.
\<close>

definition isdigit :: "ustring \<Rightarrow> bool" where
  "isdigit s = (s \<noteq> [] \<and> list_all is_decimal s)"

section \<open>Regular expressions with the matching order of \<open>re\<close>\<close>

text \<open>
  The patterns of the source use literals, classes, concatenation, alternation, greedy
  repetition, capturing groups and the end anchor. \<open>rx_match r (xs, g)\<close> lists every way
  \<open>r\<close> can match a prefix of \<open>xs\<close>, as the input left over and the groups captured, in the
  order in which a backtracking matcher tries them: the left alternative first, the longer
  repetition first. \<open>re_search\<close> takes the first success at the leftmost start.
\<close>

datatype rx =
    Sym "codepoint \<Rightarrow> bool"
  | Eps
  | Cat rx rx
  | Alt rx rx
  | Star rx
  | Grp nat rx
  | Eos

type_synonym groups = "(nat \<times> ustring) list"
type_synonym mstate = "ustring \<times> groups"

fun star_iter :: "nat \<Rightarrow> (mstate \<Rightarrow> mstate list) \<Rightarrow> mstate \<Rightarrow> mstate list" where
  "star_iter 0 f s = [s]"
| "star_iter (Suc n) f s =
     concat (map (\<lambda>t. if length (fst t) < length (fst s) then star_iter n f t else []) (f s))
     @ [s]"

fun rx_match :: "rx \<Rightarrow> mstate \<Rightarrow> mstate list" where
  "rx_match (Sym p) (xs, g) =
     (case xs of [] \<Rightarrow> [] | x # xs' \<Rightarrow> if p x then [(xs', g)] else [])"
| "rx_match Eps s = [s]"
| "rx_match (Cat r1 r2) s = concat (map (rx_match r2) (rx_match r1 s))"
| "rx_match (Alt r1 r2) s = rx_match r1 s @ rx_match r2 s"
| "rx_match (Star r) s = star_iter (length (fst s)) (rx_match r) s"
| "rx_match (Grp n r) (xs, g) =
     map (\<lambda>t. (fst t, (n, take (length xs - length (fst t)) xs) # snd t)) (rx_match r (xs, g))"
| "rx_match Eos (xs, g) = (if xs = [] \<or> xs = [c_newline] then [(xs, g)] else [])"

fun re_search :: "rx \<Rightarrow> ustring \<Rightarrow> groups option" where
  "re_search r [] = (case rx_match r ([], []) of [] \<Rightarrow> None | t # _ \<Rightarrow> Some (snd t))"
| "re_search r (x # xs) =
     (case rx_match r (x # xs, []) of [] \<Rightarrow> re_search r xs | t # _ \<Rightarrow> Some (snd t))"

text \<open>
  \<open>re_sub_empty r s\<close> is \<open>re.sub(r, '', s)\<close> for a pattern without anchors: from left to
  right, what the pattern matches is dropped and the search goes on behind it.
\<close>

function re_sub_empty :: "rx \<Rightarrow> ustring \<Rightarrow> ustring" where
  "re_sub_empty r [] = []"
| "re_sub_empty r (x # xs) =
     (case rx_match r (x # xs, []) of
        [] \<Rightarrow> x # re_sub_empty r xs
      | t # _ \<Rightarrow>
          if length (fst t) \<le> length xs then re_sub_empty r (fst t)
          else x # re_sub_empty r xs)"
  by pat_completeness auto
termination
  by (relation "measure (\<lambda>(r, xs). length xs)") auto

text \<open>\<open>group g k\<close> is \<open>match.group(k)\<close>; every group read by the source takes part in
  every match of its pattern.\<close>

definition group :: "groups \<Rightarrow> nat \<Rightarrow> ustring" where
  "group g k = (case map_of g k of None \<Rightarrow> [] | Some s \<Rightarrow> s)"

definition Chr :: "codepoint \<Rightarrow> rx" where
  "Chr c = Sym (\<lambda>x. x = c)"

definition Cls :: "codepoint list \<Rightarrow> rx" where
  "Cls cs = Sym (\<lambda>x. x \<in> set cs)"

definition Digit :: rx where
  "Digit = Sym is_decimal"

definition Space :: rx where
  "Space = Sym is_space"

definition Plus :: "rx \<Rightarrow> rx" where
  "Plus r = Cat r (Star r)"

definition Opt :: "rx \<Rightarrow> rx" where
  "Opt r = Alt r Eps"

fun Lit :: "ustring \<Rightarrow> rx" where
  "Lit [] = Eps"
| "Lit (c # cs) = Cat (Chr c) (Lit cs)"

section \<open>Calendar dates: the part of \<open>datetime\<close> that the parsers use\<close>

text \<open>
  A \<open>datetime.date\<close> is a year, a month and a day of the proleptic Gregorian calendar,
  from 0001-01-01 to 9999-12-31. Whatever leaves that range raises \<open>OverflowError\<close>; a
  day that the month does not have raises \<open>ValueError\<close>; an argument that does not fit a
  C \<open>int\<close> raises \<open>OverflowError\<close>. \<open>UnboundLocalError\<close> is what reading a local name
  before its binding raises.
\<close>

datatype py_error = ValueError | OverflowError | UnboundLocalError

record date =
  year :: int
  month :: int
  day :: int

definition is_leap :: "int \<Rightarrow> bool" where
  "is_leap y = (y mod 4 = 0 \<and> (y mod 100 \<noteq> 0 \<or> y mod 400 = 0))"

definition days_in_month :: "int \<Rightarrow> int \<Rightarrow> int" where
  "days_in_month y m =
     (if m = 2 then (if is_leap y then 29 else 28)
      else if m = 4 \<or> m = 6 \<or> m = 9 \<or> m = 11 then 30
      else 31)"

definition date_ok :: "date \<Rightarrow> bool" where
  "date_ok d =
     (1 \<le> year d \<and> year d \<le> 9999 \<and> 1 \<le> month d \<and> month d \<le> 12 \<and>
      1 \<le> day d \<and> day d \<le> days_in_month (year d) (month d))"

definition c_int_max :: int where
  "c_int_max = 2147483647"

text \<open>\<open>mk_date y m d\<close> is the constructor \<open>date(y, m, d)\<close>.\<close>

definition mk_date :: "int \<Rightarrow> int \<Rightarrow> int \<Rightarrow> py_error + date" where
  "mk_date y m d =
     (if c_int_max < y \<or> c_int_max < m \<or> c_int_max < d then Inl OverflowError
      else if date_ok \<lparr>year = y, month = m, day = d\<rparr>
        then Inr \<lparr>year = y, month = m, day = d\<rparr>
        else Inl ValueError)"

text \<open>\<open>replace_day dt d\<close> is \<open>dt.replace(day=d)\<close>.\<close>

definition replace_day :: "date \<Rightarrow> int \<Rightarrow> py_error + date" where
  "replace_day dt d = mk_date (year dt) (month dt) d"

text \<open>Dates compare as the triples (year, month, day).\<close>

definition date_le :: "date \<Rightarrow> date \<Rightarrow> bool" where
  "date_le a b =
     (year a < year b \<or>
      (year a = year b \<and> (month a < month b \<or> (month a = month b \<and> day a \<le> day b))))"

text \<open>The day before and the day after, and a shift by any number of days.\<close>

definition prev_day :: "date \<Rightarrow> py_error + date" where
  "prev_day d =
     (if 1 < day d then Inr (d\<lparr>day := day d - 1\<rparr>)
      else if 1 < month d
        then Inr \<lparr>year = year d, month = month d - 1,
                  day = days_in_month (year d) (month d - 1)\<rparr>
      else if 1 < year d then Inr \<lparr>year = year d - 1, month = 12, day = 31\<rparr>
      else Inl OverflowError)"

definition next_day :: "date \<Rightarrow> py_error + date" where
  "next_day d =
     (if day d < days_in_month (year d) (month d) then Inr (d\<lparr>day := day d + 1\<rparr>)
      else if month d < 12 then Inr \<lparr>year = year d, month = month d + 1, day = 1\<rparr>
      else if year d < 9999 then Inr \<lparr>year = year d + 1, month = 1, day = 1\<rparr>
      else Inl OverflowError)"

primrec back_days :: "nat \<Rightarrow> date \<Rightarrow> py_error + date" where
  "back_days 0 d = Inr d"
| "back_days (Suc n) d =
     (case prev_day d of Inl e \<Rightarrow> Inl e | Inr d' \<Rightarrow> back_days n d')"

primrec forward_days :: "nat \<Rightarrow> date \<Rightarrow> py_error + date" where
  "forward_days 0 d = Inr d"
| "forward_days (Suc n) d =
     (case next_day d of Inl e \<Rightarrow> Inl e | Inr d' \<Rightarrow> forward_days n d')"

text \<open>\<open>timedelta n\<close> is \<open>timedelta(days=n)\<close>, which accepts at most 999999999 days
  either way.\<close>

definition timedelta :: "int \<Rightarrow> py_error + int" where
  "timedelta n = (if \<bar>n\<bar> \<le> 999999999 then Inr n else Inl OverflowError)"

text \<open>\<open>date_add d n\<close> is \<open>d + timedelta(days=n)\<close> and \<open>date_sub d n\<close> is
  \<open>d - timedelta(days=n)\<close>.\<close>

definition date_add :: "date \<Rightarrow> int \<Rightarrow> py_error + date" where
  "date_add d n =
     (case timedelta n of
        Inl e \<Rightarrow> Inl e
      | Inr k \<Rightarrow> if 0 \<le> k then forward_days (nat k) d else back_days (nat (- k)) d)"

definition date_sub :: "date \<Rightarrow> int \<Rightarrow> py_error + date" where
  "date_sub d n =
     (case timedelta n of
        Inl e \<Rightarrow> Inl e
      | Inr k \<Rightarrow> if 0 \<le> k then back_days (nat k) d else forward_days (nat (- k)) d)"

text \<open>The ordinal of a date (0001-01-01 is day 1) and its weekday, Monday being 0.\<close>

definition days_before_year :: "int \<Rightarrow> int" where
  "days_before_year y = (y - 1) * 365 + (y - 1) div 4 - (y - 1) div 100 + (y - 1) div 400"

definition days_before_month :: "int \<Rightarrow> int \<Rightarrow> int" where
  "days_before_month y m = sum_list (map (days_in_month y) [1..m - 1])"

definition toordinal :: "date \<Rightarrow> int" where
  "toordinal d = days_before_year (year d) + days_before_month (year d) (month d) + day d"

definition weekday :: "date \<Rightarrow> int" where
  "weekday d = (toordinal d + 6) mod 7"

section \<open>The date parser (\<open>utils/date_parser.py\<close>)\<close>

text \<open>\<open>dict_get d k v\<close> is \<open>d.get(k, v)\<close> on a dictionary given as its list of items.\<close>

definition dict_get :: "('k \<times> 'v) list \<Rightarrow> 'k \<Rightarrow> 'v \<Rightarrow> 'v" where
  "dict_get d k dflt = (case map_of d k of None \<Rightarrow> dflt | Some v \<Rightarrow> v)"

definition DateParser_CHINESE_NUMS :: "(ustring \<times> int) list" where
  "DateParser_CHINESE_NUMS =
    [([c_ling], 0), ([c_yi], 1), ([c_er], 2), ([c_san], 3), ([c_si], 4),
     ([c_wu], 5), ([c_liu], 6), ([c_qi], 7), ([c_ba], 8), ([c_jiu], 9),
     ([c_shi], 10), ([c_liang], 2), ([c_liang_simplified], 2)]"

definition WEEKDAY_MAP :: "(ustring \<times> int) list" where
  "WEEKDAY_MAP =
    [([c_yi], 0), ([c_er], 1), ([c_san], 2), ([c_si], 3),
     ([c_wu], 4), ([c_liu], 5), ([c_ri], 6), ([c_tian], 6)]"

definition DateParser_parse_chinese_number :: "ustring \<Rightarrow> int" where
  "DateParser_parse_chinese_number text =
     (if isdigit text then py_int text
      else if length text = 1 then dict_get DateParser_CHINESE_NUMS text 1
      else
        (let result =
           (if c_shi \<in> set text then
              (case split_on c_shi text of
                 [] \<Rightarrow> 0
               | p0 # rest \<Rightarrow>
                   (let r1 = (if p0 \<noteq> [] then dict_get DateParser_CHINESE_NUMS p0 1 * 10 else 10)
                    in case rest of
                         [] \<Rightarrow> r1
                       | p1 # _ \<Rightarrow>
                           if p1 \<noteq> [] then r1 + dict_get DateParser_CHINESE_NUMS p1 0 else r1))
            else
              foldl (\<lambda>result char.
                       case map_of DateParser_CHINESE_NUMS [char] of
                         None \<Rightarrow> result
                       | Some v \<Rightarrow> result * 10 + v) 0 text)
         in if 0 < result then result else 1))"

text \<open>The patterns, in the order in which \<open>parse\<close> tries them.\<close>

definition chinese_digits_1_10 :: "codepoint list" where
  "chinese_digits_1_10 = [c_yi, c_er, c_san, c_si, c_wu, c_liu, c_qi, c_ba, c_jiu, c_shi]"

text \<open>\<^verbatim>\<open>(\d+|[1-10 in Chinese]+)\s*\<close> followed by the two characters of "days ago".\<close>

definition pat_days_ago :: rx where
  "pat_days_ago =
     Cat (Grp 1 (Alt (Plus Digit) (Plus (Cls chinese_digits_1_10))))
         (Cat (Star Space) (Lit [c_tian, c_qian_before]))"

text \<open>\<^verbatim>\<open>(last|this|next)\<close> week \<^verbatim>\<open>([weekday])\<close>.\<close>

definition pat_weekday :: rx where
  "pat_weekday =
     Cat (Grp 1 (Alt (Chr c_shang) (Alt (Chr c_zhe) (Chr c_xia))))
         (Cat (Chr c_zhou) (Grp 2 (Cls [c_yi, c_er, c_san, c_si, c_wu, c_liu, c_ri, c_tian])))"

text \<open>"last month" \<^verbatim>\<open>(\d+)[day markers]?\<close>.\<close>

definition pat_last_month_day :: rx where
  "pat_last_month_day =
     Cat (Lit [c_shang, c_ge, c_yue]) (Cat (Grp 1 (Plus Digit)) (Opt (Cls [c_hao, c_ri])))"

text \<open>\<^verbatim>\<open>(this month)?(\d+)[day markers]\<close>.\<close>

definition pat_this_month_day :: rx where
  "pat_this_month_day =
     Cat (Opt (Grp 1 (Lit [c_zhe, c_ge, c_yue]))) (Cat (Grp 2 (Plus Digit)) (Cls [c_hao, c_ri]))"

text \<open>\<^verbatim>\<open>(\d{1,2})[/\-](\d{1,2})\<close>.\<close>

definition Digit12 :: rx where
  "Digit12 = Cat Digit (Opt Digit)"

definition pat_month_day :: rx where
  "pat_month_day = Cat (Grp 1 Digit12) (Cat (Cls [c_slash, c_hyphen]) (Grp 2 Digit12))"

text \<open>\<^verbatim>\<open>(\d{4})[year/\-](\d{1,2})[month/\-](\d{1,2})[day]?\<close>.\<close>

definition pat_full_date :: rx where
  "pat_full_date =
     Cat (Grp 1 (Cat Digit (Cat Digit (Cat Digit Digit))))
      (Cat (Cls [c_nian, c_slash, c_hyphen])
        (Cat (Grp 2 Digit12)
          (Cat (Cls [c_yue, c_slash, c_hyphen])
            (Cat (Grp 3 Digit12) (Opt (Chr c_ri))))))"

definition found :: "py_error + date \<Rightarrow> py_error + date option" where
  "found r = (case r of Inl e \<Rightarrow> Inl e | Inr d \<Rightarrow> Inr (Some d))"

text \<open>
  The two last rules: a month and a day of this year, then a full date. A date that
  does not exist raises \<open>ValueError\<close>, which the rule swallows to go on.
\<close>

definition parse_full_date :: "ustring \<Rightarrow> py_error + date option" where
  "parse_full_date text =
     (case re_search pat_full_date text of
        None \<Rightarrow> Inr None
      | Some m \<Rightarrow>
          (case mk_date (py_int (group m 1)) (py_int (group m 2)) (py_int (group m 3)) of
             Inr d \<Rightarrow> Inr (Some d)
           | Inl ValueError \<Rightarrow> Inr None
           | Inl e \<Rightarrow> Inl e))"

definition parse_month_day :: "date \<Rightarrow> ustring \<Rightarrow> py_error + date option" where
  "parse_month_day today text =
     (case re_search pat_month_day text of
        None \<Rightarrow> parse_full_date text
      | Some m \<Rightarrow>
          (case mk_date (year today) (py_int (group m 1)) (py_int (group m 2)) of
             Inr d \<Rightarrow> Inr (Some d)
           | Inl ValueError \<Rightarrow> parse_full_date text
           | Inl e \<Rightarrow> Inl e))"

text \<open>The day of this month: a day the month does not have gives today.\<close>

definition parse_this_month_day :: "date \<Rightarrow> ustring \<Rightarrow> py_error + date option" where
  "parse_this_month_day today text =
     (case re_search pat_this_month_day text of
        None \<Rightarrow> parse_month_day today text
      | Some m \<Rightarrow>
          (case replace_day today (py_int (group m 2)) of
             Inr d \<Rightarrow> Inr (Some d)
           | Inl ValueError \<Rightarrow> Inr (Some today)
           | Inl e \<Rightarrow> Inl e))"

text \<open>The day of last month: a day that month does not have gives its last day.\<close>

definition parse_last_month_day :: "date \<Rightarrow> ustring \<Rightarrow> py_error + date option" where
  "parse_last_month_day today text =
     (case re_search pat_last_month_day text of
        None \<Rightarrow> parse_this_month_day today text
      | Some m \<Rightarrow>
          (case replace_day today 1 of
             Inl e \<Rightarrow> Inl e
           | Inr first_of_month \<Rightarrow>
               (case date_sub first_of_month 1 of
                  Inl e \<Rightarrow> Inl e
                | Inr last_month \<Rightarrow>
                    (case replace_day last_month (py_int (group m 1)) of
                       Inr d \<Rightarrow> Inr (Some d)
                     | Inl ValueError \<Rightarrow> Inr (Some last_month)
                     | Inl e \<Rightarrow> Inl e))))"

definition parse_weekday :: "date \<Rightarrow> ustring \<Rightarrow> py_error + date option" where
  "parse_weekday today text =
     (case re_search pat_weekday text of
        None \<Rightarrow> parse_last_month_day today text
      | Some m \<Rightarrow>
          (let week_offset = dict_get [([c_shang], - 1), ([c_zhe], 0), ([c_xia],
              1)] (group m 1) 0;
               target_weekday = dict_get WEEKDAY_MAP (group m 2) 0;
               current_weekday = weekday today;
               days_diff = target_weekday - current_weekday + week_offset * 7
           in found (date_add today days_diff)))"

definition parse_days_ago :: "date \<Rightarrow> ustring \<Rightarrow> py_error + date option" where
  "parse_days_ago today text =
     (case re_search pat_days_ago text of
        None \<Rightarrow> parse_weekday today text
      | Some m \<Rightarrow> found (date_sub today (DateParser_parse_chinese_number (group m 1))))"

text \<open>\<open>DateParser.parse\<close>, with the date of the day as an argument.\<close>

definition DateParser_parse :: "date \<Rightarrow> ustring \<Rightarrow> py_error + date option" where
  "DateParser_parse today raw =
     (let text = strip raw in
      if contains text [c_jin, c_tian] \<or> contains text [c_jin, c_ri] then Inr (Some today)
      else if contains text [c_zuo, c_tian] \<or> contains text [c_zuo,
          c_ri] then found (date_sub today 1)
      else if contains text [c_qian_before, c_tian] then found (date_sub today 2)
      else if contains text [c_da, c_qian_before, c_tian] then found (date_sub today 3)
      else if contains text [c_ming, c_tian] \<or> contains text [c_ming,
          c_ri] then found (date_add today 1)
      else parse_days_ago today text)"

section \<open>The command parser (\<open>services/nlp_parser.py\<close>)\<close>

text \<open>The keyword table, in the order of the dictionary, and the income categories.\<close>

definition CATEGORY_KEYWORDS :: "(ustring \<times> ustring list) list" where
  "CATEGORY_KEYWORDS =
    [
     ([c_can, c_yin],
       [[0x5403], [c_can], [0x98EF], [c_wu_noon, c_can], [0x665A, c_can], [0x65E9, c_can],
           [0x5BB5, 0x591C],
        [c_yin, 0x6599], [0x5496, 0x5561], [0x5976, 0x8336], [0x4FBF, 0x7576], [0x9EB5],
            [0x706B, 0x934B], [0x71D2, 0x70E4],
        [0x5916, 0x98DF], [0x98DF], [0x559D], [c_ling, 0x98DF], [0x9EDE, 0x5FC3],
            [0x86CB, 0x7CD5]]),
     ([0x4EA4, 0x901A],
       [[0x8ECA], [0x6377, 0x904B], [0x516C, 0x8ECA], [0x75, 0x62, 0x65, 0x72],
           [c_ji, 0x7A0B, 0x8ECA], [0x9AD8, 0x9435],
        [0x706B, 0x8ECA], [0x6A5F, 0x7968], [0x52A0, 0x6CB9], [0x505C, 0x8ECA], [0x901A, 0x52E4],
            [0x9A0E], [0x642D],
        [0x5750, 0x8ECA], [0x4EA4, 0x901A]]),
     ([0x5A1B, 0x6A02],
       [[0x96FB, 0x5F71], [0x904A, 0x6232], [0x4B, 0x54, 0x56], [0x5531, 0x6B4C], [0x73A9],
           [0x9580, 0x7968], [0x65C5, 0x904A],
        [0x904A], [0x770B, 0x5C55], [0x6F14, 0x5531, 0x6703], [0x5A1B, 0x6A02], [0x8A02, 0x95B1],
            [0x4E, 0x65, 0x74, 0x66, 0x6C, 0x69, 0x78],
        [0x53, 0x70, 0x6F, 0x74, 0x69, 0x66, 0x79]]),
     ([0x8CFC, 0x7269],
       [[c_mai], [0x8CFC], [0x8863, 0x670D], [0x978B], [0x5305], [0x33, 0x43], [0x96FB, 0x5668],
        [0x624B, 0x6A5F], [0x96FB, 0x8166], [0x7DB2, 0x8CFC], [0x8766, 0x76AE], [0x6DD8, 0x5BF6],
            [c_bai, 0x8CA8], [0x8D85, 0x5E02],
        [0x4FBF, 0x5229, 0x5546, 0x5E97], [0x5168, 0x806F]]),
     ([0x91AB, 0x7642],
       [[0x91AB], [0x85E5], [0x770B, 0x8A3A], [0x639B, c_hao], [0x5065, 0x6AA2], [0x7259],
           [0x773C, 0x79D1],
        [0x8A3A, 0x6240], [0x91AB, 0x9662]]),
     ([0x5C45, 0x4F4F],
       [[0x623F, 0x79DF], [0x6C34, 0x96FB], [0x96FB, 0x8CBB], [0x6C34, 0x8CBB], [0x74E6, 0x65AF],
           [0x7BA1, 0x7406, 0x8CBB],
        [0x7DB2, 0x8DEF], [0x63, 0x61, 0x62, 0x6C, 0x65], [0x79DF, 0x91D1], [0x623F, 0x8CB8],
            [0x7DAD, 0x4FEE]]),
     ([0x6559, 0x80B2],
       [[0x66F8], [0x8AB2], [0x5B78, 0x8CBB], [0x88DC, 0x7FD2], [0x6559, 0x6750],
           [0x6587, 0x5177], [0x8003, 0x8A66],
        [0x8B49, 0x7167], [c_xian, c_shang, 0x8AB2, 0x7A0B]]),
     ([0x85AA, 0x8CC7],
       [[0x85AA], [0x85AA, 0x6C34], [0x5DE5, 0x8CC7], [0x767C, 0x85AA], [c_yue, 0x85AA],
           [0x734E, 0x91D1], [c_nian, 0x7D42]]),
     ([0x6295, 0x8CC7],
       [[0x80A1], [0x57FA, 0x91D1], [0x5229, 0x606F], [0x80A1, 0x5229], [0x914D, 0x606F],
           [0x6295, 0x8CC7, c_shou, 0x76CA]]),
     ([c_qi_other, c_ta, c_shou, c_ru],
       [[c_shou, c_ru], [c_ru, 0x5E33], [0x8F49, 0x5E33, c_shou, c_ru], [0x7D05, 0x5305],
           [0x79AE, 0x91D1], [0x4E2D, 0x734E]])
    ]"

definition INCOME_CATEGORIES :: "ustring set" where
  "INCOME_CATEGORIES = {[0x85AA, 0x8CC7], [0x6295, 0x8CC7], [c_qi_other, c_ta, c_shou, c_ru]}"

definition CHINESE_NUMS :: "(codepoint \<times> int) list" where
  "CHINESE_NUMS =
    [(c_ling, 0), (c_yi, 1), (c_er, 2), (c_san, 3), (c_si, 4),
     (c_wu, 5), (c_liu, 6), (c_qi, 7), (c_ba, 8), (c_jiu, 9),
     (c_shi, 10), (c_bai, 100), (c_qian, 1000), (c_wan, 10000),
     (c_liang, 2), (c_liang_simplified, 2)]"

subsection \<open>Amounts\<close>

text \<open>
  \<open>float(n)\<close> of an integer raises \<open>OverflowError\<close> once \<open>n\<close> rounds beyond the largest
  double; below, the value is kept exact.
\<close>

definition float_of_int :: "int \<Rightarrow> py_error + rat" where
  "float_of_int n =
     (if \<bar>n\<bar> < 2 ^ 1024 - 2 ^ 970 then Inr (of_int n) else Inl OverflowError)"

text \<open>One character of \<open>_chinese_to_number\<close>: the state is \<open>(result, temp)\<close>.\<close>

definition chinese_step :: "int \<times> int \<Rightarrow> codepoint \<Rightarrow> int \<times> int" where
  "chinese_step st char =
     (case st of (result, temp) \<Rightarrow>
        (case map_of CHINESE_NUMS char of
           None \<Rightarrow> (result, temp)
         | Some num \<Rightarrow>
             if 10 \<le> num then
               (let temp1 = (if temp = 0 then 1 else temp);
                    temp2 = temp1 * num
                in if 10000 \<le> num then (result + temp2, 0) else (result, temp2))
             else (result, if 10 \<le> temp then temp * 10 + num else num)))"

definition chinese_to_number :: "ustring \<Rightarrow> py_error + rat" where
  "chinese_to_number text =
     (case foldl chinese_step (0, 0) text of (result, temp) \<Rightarrow> float_of_int (result + temp))"

definition currency_units :: "codepoint list" where
  "currency_units = [c_yuan, c_kuai, c_qian_money]"

text \<open>\<^verbatim>\<open>([Chinese numerals]+)\s*[currency]\<close>.\<close>

definition pat_chinese_amount :: rx where
  "pat_chinese_amount =
     Cat (Grp 1 (Plus (Cls [c_ling, c_yi, c_er, c_san, c_si, c_wu, c_liu, c_qi, c_ba, c_jiu,
         c_shi, c_bai, c_qian, c_wan, c_liang, c_liang_simplified])))
         (Cat (Star Space) (Cls currency_units))"

definition extract_chinese_amount :: "ustring \<Rightarrow> py_error + rat option" where
  "extract_chinese_amount text =
     (case re_search pat_chinese_amount text of
        None \<Rightarrow> Inr None
      | Some m \<Rightarrow>
          (case chinese_to_number (group m 1) of
             Inl e \<Rightarrow> Inl e
           | Inr v \<Rightarrow> Inr (Some v)))"

text \<open>
  The four patterns of \<open>_extract_amount\<close>, all with \<^verbatim>\<open>(\d+(?:\.\d+)?)\<close> as group 1.
  They are searched with \<open>re.IGNORECASE\<close>, which only matters for the letters of \<open>NT\<close>.
\<close>

definition Number :: rx where
  "Number = Grp 1 (Cat (Plus Digit) (Opt (Cat (Chr c_dot) (Plus Digit))))"

text \<open>\<^verbatim>\<open>(\d+(?:\.\d+)?)\s*[currency]\<close>\<close>

definition pat_amount_unit :: rx where
  "pat_amount_unit = Cat Number (Cat (Star Space) (Cls currency_units))"

text \<open>\<^verbatim>\<open>\$\s*(\d+(?:\.\d+)?)\<close>\<close>

definition pat_amount_dollar :: rx where
  "pat_amount_dollar = Cat (Chr c_dollar) (Cat (Star Space) Number)"

text \<open>\<^verbatim>\<open>NT\$?\s*(\d+(?:\.\d+)?)\<close>\<close>

definition pat_amount_nt :: rx where
  "pat_amount_nt =
     Cat (Cls [0x4E, 0x6E]) (Cat (Cls [0x54,
         0x74]) (Cat (Opt (Chr c_dollar)) (Cat (Star Space) Number)))"

text \<open>\<^verbatim>\<open>(\d+(?:\.\d+)?)\s*(?:currency|currency|currency|$)\<close>\<close>

definition pat_amount_unit_or_end :: rx where
  "pat_amount_unit_or_end =
     Cat Number
       (Cat (Star Space) (Alt (Chr c_yuan) (Alt (Chr c_kuai) (Alt (Chr c_qian_money) Eos))))"

definition amount_patterns :: "rx list" where
  "amount_patterns =
     [pat_amount_unit, pat_amount_dollar, pat_amount_nt, pat_amount_unit_or_end]"

fun first_match :: "rx list \<Rightarrow> ustring \<Rightarrow> groups option" where
  "first_match [] text = None"
| "first_match (pattern # patterns) text =
     (case re_search pattern text of
        Some m \<Rightarrow> Some m
      | None \<Rightarrow> first_match patterns text)"

text \<open>The last attempt of \<open>_extract_amount\<close>: any number in the text.\<close>

definition any_number :: "ustring \<Rightarrow> rat option" where
  "any_number text =
     (case re_search Number text of
        None \<Rightarrow> None
      | Some m \<Rightarrow> Some (py_float (group m 1)))"

definition extract_amount :: "ustring \<Rightarrow> py_error + rat option" where
  "extract_amount text =
     (case first_match amount_patterns text of
        Some m \<Rightarrow> Inr (Some (py_float (group m 1)))
      | None \<Rightarrow>
          (case extract_chinese_amount text of
             Inl e \<Rightarrow> Inl e
           | Inr chinese_amount \<Rightarrow>
               if chinese_amount \<noteq> None \<and> chinese_amount \<noteq> Some 0 then Inr chinese_amount
               else Inr (any_number text)))"

subsection \<open>Categories\<close>

text \<open>
  The words are what the segmenter \<open>jieba.cut\<close> returns for the text. The segmenter is a
  library outside the repository, so its result is an argument of the classifier. The score
  of a category counts the pairs of a word and a keyword of which one contains the other.
\<close>

definition keyword_score :: "ustring list \<Rightarrow> ustring list \<Rightarrow> nat" where
  "keyword_score words keywords =
     sum_list (map (\<lambda>word.
        length (filter (\<lambda>keyword. contains word keyword \<or> contains keyword word) keywords))
        words)"

definition category_scores :: "ustring list \<Rightarrow> (ustring \<times> nat) list" where
  "category_scores words =
     filter (\<lambda>cs. 0 < snd cs)
       (map (\<lambda>ck. (fst ck, keyword_score words (snd ck))) CATEGORY_KEYWORDS)"

text \<open>\<open>max(scores, key=scores.get)\<close>: the first key that has the highest score.\<close>

fun max_by_score :: "(ustring \<times> nat) \<Rightarrow> (ustring \<times> nat) list \<Rightarrow> ustring" where
  "max_by_score best [] = fst best"
| "max_by_score best (cs # rest) =
     (if snd best < snd cs then max_by_score cs rest else max_by_score best rest)"

definition extract_category :: "ustring list \<Rightarrow> ustring option" where
  "extract_category words =
     (case category_scores words of
        [] \<Rightarrow> None
      | cs # rest \<Rightarrow> Some (max_by_score cs rest))"

subsection \<open>Records\<close>

datatype txn_type = Income | Expense

record parsed_record =
  r_amount :: "rat option"
  r_type :: txn_type
  r_category :: ustring
  r_date :: date
  r_description :: ustring
  r_confidence :: rat
  r_raw_text :: ustring

text \<open>
  \<open>_clean_description\<close>: the amounts with a currency marker and ten date words are taken
  out of the text, and the whitespace is collapsed.
\<close>

definition date_keywords :: "ustring list" where
  "date_keywords =
     [[c_jin, c_tian], [c_zuo, c_tian], [c_qian_before, c_tian], [c_jin, c_ri], [c_zuo, c_ri],
         [c_shang, c_zhou], [c_zhe, c_zhou], [c_xia, c_zhou], [c_shang, c_ge, c_yue],
         [c_zhe, c_ge, c_yue]]"

definition clean_description :: "ustring \<Rightarrow> ustring" where
  "clean_description text =
     (let t1 = re_sub_empty pat_amount_unit text;
          t2 = re_sub_empty pat_amount_dollar t1;
          t3 = re_sub_empty pat_amount_nt t2;
          t4 = foldl (\<lambda>t kw. replace_empty kw t) t3 date_keywords
      in strip (join_spaces (py_split t4)))"

text \<open>
  \<open>NLPParser.parse\<close>, with the words of the text and the date of the day as arguments.
  An amount of zero counts as no amount.
\<close>

definition NLPParser_parse ::
  "ustring list \<Rightarrow> date \<Rightarrow> ustring \<Rightarrow> py_error + parsed_record" where
  "NLPParser_parse words today text =
     (case extract_amount text of
        Inl e \<Rightarrow> Inl e
      | Inr amount \<Rightarrow>
     (case DateParser_parse today text of
        Inl e \<Rightarrow> Inl e
      | Inr parsed_date \<Rightarrow>
     (let has_amount = (amount \<noteq> None \<and> amount \<noteq> Some 0);
          c1 = (if has_amount then 4 / 10 else 0);
          c2 = (if parsed_date \<noteq> None then c1 + 1 / 10 else c1);
          category = extract_category words
      in Inr \<lparr>
           r_amount = (if has_amount then amount else None),
           r_type = (case category of
                       None \<Rightarrow> Expense
                     | Some c \<Rightarrow> if c \<in> INCOME_CATEGORIES then Income else Expense),
           r_category = (case category of
                           None \<Rightarrow> if contains text [c_shou, c_ru] then [c_qi_other, c_ta, c_shou,
                               c_ru] else [c_qi_other, c_ta]
                         | Some c \<Rightarrow> c),
           r_date = (case parsed_date of None \<Rightarrow> today | Some d \<Rightarrow> d),
           r_description = clean_description text,
           r_confidence = (case category of None \<Rightarrow> c2 + 1 / 10 | Some c \<Rightarrow> c2 + 4 / 10),
           r_raw_text = text \<rparr>)))"

subsection \<open>Queries\<close>

datatype query_kind = Summary | Trend | ByCategory | Compare
datatype period = Day | Week | Month | Year
datatype chart = Pie | Line | Bar

record parsed_query =
  q_query_type :: query_kind
  q_category :: "ustring option"
  q_period :: period
  q_start_date :: date
  q_end_date :: date
  q_chart_type :: "chart option"

definition NLPParser_parse_chinese_number :: "ustring \<Rightarrow> int" where
  "NLPParser_parse_chinese_number text =
     (if isdigit text then py_int text
      else if length text = 1 then
        dict_get [([c_yi], 1), ([c_er], 2), ([c_san], 3), ([c_si], 4), ([c_wu], 5),
                  ([c_liu], 6), ([c_qi], 7), ([c_ba], 8), ([c_jiu], 9), ([c_shi], 10)] text 1
      else 3)"

text \<open>\<^verbatim>\<open>near?(\d+|[1-10 in Chinese]+)\s*(counter)?month\<close>\<close>

definition pat_months :: rx where
  "pat_months =
     Cat (Opt (Chr c_jin_near))
       (Cat (Grp 1 (Alt (Plus Digit) (Plus (Cls chinese_digits_1_10))))
         (Cat (Star Space) (Cat (Opt (Chr c_ge)) (Chr c_yue))))"

text \<open>The loop of \<open>parse_query\<close> that walks the start date back, a month at each turn.\<close>

primrec months_back :: "nat \<Rightarrow> date \<Rightarrow> py_error + date" where
  "months_back 0 start = Inr start"
| "months_back (Suc n) start =
     (case date_sub start 1 of
        Inl e \<Rightarrow> Inl e
      | Inr d \<Rightarrow>
          (case replace_day d 1 of
             Inl e \<Rightarrow> Inl e
           | Inr start' \<Rightarrow> months_back n start'))"

text \<open>
  The time range. \<open>timedelta\<close> is a local name of \<open>parse_query\<close>, bound by the
  \<open>import\<close> in the branch of the month count further down, so the two branches that
  read it before that raise \<open>UnboundLocalError\<close>.
\<close>

definition query_period :: "date \<Rightarrow> ustring \<Rightarrow> parsed_query \<Rightarrow> py_error + parsed_query" where
  "query_period today text result =
     (if contains text [c_jin, c_tian] \<or> contains text [c_jin, c_ri] then
        Inr (result\<lparr>q_period := Day, q_start_date := today\<rparr>)
      else if contains text [c_zhe, c_zhou] \<or> contains text [c_ben, c_zhou] then
        Inl UnboundLocalError
      else if contains text [c_shang, c_ge, c_yue] \<or> contains text [c_shang, c_yue] then
        (case replace_day today 1 of
           Inl e \<Rightarrow> Inl e
         | Inr first_of_month \<Rightarrow> Inl UnboundLocalError)
      else if contains text [c_zhe, c_ge, c_yue] \<or> contains text [c_ben, c_yue] then
        (case replace_day today 1 of
           Inl e \<Rightarrow> Inl e
         | Inr d \<Rightarrow> Inr (result\<lparr>q_period := Month, q_start_date := d\<rparr>))
      else if contains text [c_jin, c_nian] then
        (case mk_date (year today) 1 1 of
           Inl e \<Rightarrow> Inl e
         | Inr d \<Rightarrow> Inr (result\<lparr>q_period := Year, q_start_date := d\<rparr>))
      else Inr result)"

definition query_months :: "date \<Rightarrow> ustring \<Rightarrow> parsed_query \<Rightarrow> py_error + parsed_query" where
  "query_months today text result =
     (case re_search pat_months text of
        None \<Rightarrow> Inr result
      | Some m \<Rightarrow>
          (let months = NLPParser_parse_chinese_number (group m 1) in
           case replace_day today 1 of
             Inl e \<Rightarrow> Inl e
           | Inr start \<Rightarrow>
               (case months_back (nat (months - 1)) start of
                  Inl e \<Rightarrow> Inl e
                | Inr d \<Rightarrow> Inr (result\<lparr>q_start_date := d\<rparr>))))"

definition query_category :: "ustring \<Rightarrow> parsed_query \<Rightarrow> parsed_query" where
  "query_category text result =
     (case find (\<lambda>category. contains text category) (map fst CATEGORY_KEYWORDS) of
        None \<Rightarrow> result
      | Some category \<Rightarrow> result\<lparr>q_category := Some category, q_query_type := ByCategory\<rparr>)"

definition query_chart :: "ustring \<Rightarrow> parsed_query \<Rightarrow> parsed_query" where
  "query_chart text result =
     (if contains text [c_yuan_round, c_bing, c_tu_chart] \<or> contains text [c_bi,
         c_li] then result\<lparr>q_chart_type := Some Pie\<rparr>
      else if contains text [c_zhe_fold, c_xian, c_tu_chart] \<or> contains text [c_qu,
          c_shi_trend] then result\<lparr>q_chart_type := Some Line\<rparr>
      else if contains text [c_chang, c_tiao, c_tu_chart] \<or> contains text [c_zhu, c_zhuang,
          c_tu_chart] then result\<lparr>q_chart_type := Some Bar\<rparr>
      else result)"

definition query_kind_of :: "ustring \<Rightarrow> parsed_query \<Rightarrow> parsed_query" where
  "query_kind_of text result =
     (if contains text [c_qu, c_shi_trend] \<or> contains text [c_bian,
         c_hua_change] then result\<lparr>q_query_type := Trend\<rparr>
      else if contains text [c_bi, c_jiao] \<or> contains text [c_dui,
          c_bi] then result\<lparr>q_query_type := Compare\<rparr>
      else result)"

text \<open>\<open>NLPParser.parse_query\<close>, with the date of the day as an argument.\<close>

definition parse_query :: "date \<Rightarrow> ustring \<Rightarrow> py_error + parsed_query" where
  "parse_query today text =
     (case replace_day today 1 of
        Inl e \<Rightarrow> Inl e
      | Inr first \<Rightarrow>
     (case query_period today text
             \<lparr>q_query_type = Summary, q_category = None, q_period = Month,
              q_start_date = first, q_end_date = today, q_chart_type = None\<rparr> of
        Inl e \<Rightarrow> Inl e
      | Inr r1 \<Rightarrow>
     (case query_months today text r1 of
        Inl e \<Rightarrow> Inl e
      | Inr r2 \<Rightarrow> Inr (query_kind_of text (query_chart text (query_category text r2))))))"

section \<open>The intent classifier (\<open>routers/chat.py\<close>)\<close>

datatype intent = Record | Query | Analysis

definition query_keywords :: "ustring list" where
  "query_keywords =
     [[c_hua, c_le, c_duo, c_shao], [c_duo, c_shao, c_qian_money], [c_cha, c_xun],
         [c_tong, c_ji], [c_bao, c_gao], [c_bao, c_biao], [c_qu, c_shi_trend],
         [c_fen, c_xi, c_tu_chart]]"

definition analysis_keywords :: "ustring list" where
  "analysis_keywords = [[c_shi_is, c_bu, c_shi_is], [c_ying, c_gai], [c_jian, c_yi_advise],
      [c_bang, c_wo], [c_wei, c_shen, c_me], [c_zen, c_me], [c_ru_as, c_he]]"

definition detect_intent :: "ustring \<Rightarrow> intent" where
  "detect_intent text =
     (if list_ex (\<lambda>kw. contains text kw) query_keywords then Query
      else if list_ex (\<lambda>kw. contains text kw) analysis_keywords then Analysis
      else if re_search (Plus Digit) text \<noteq> None then Record
      else Analysis)"

section \<open>Notions used to state the properties\<close>

text \<open>A string occurs in a text when the text is some prefix, the string, some suffix.\<close>

definition occurs_in :: "ustring \<Rightarrow> ustring \<Rightarrow> bool" where
  "occurs_in s txt = (\<exists>pre post. txt = pre @ s @ post)"

text \<open>The months of the calendar, counted from January of year 1.\<close>

definition month_index :: "date \<Rightarrow> int" where
  "month_index d = 12 * (year d - 1) + (month d - 1)"

text \<open>A number in ASCII digits, as \<open>str\<close> writes it.\<close>

fun str_of_nat :: "nat \<Rightarrow> ustring" where
  "str_of_nat n = (if n < 10 then [48 + n] else str_of_nat (n div 10) @ [48 + n mod 10])"

declare str_of_nat.simps [simp del]

text \<open>The Arabic digits, 0 to 9.\<close>

definition is_arabic_digit :: "codepoint \<Rightarrow> bool" where
  "is_arabic_digit c = (0x30 \<le> c \<and> c \<le> 0x39)"

section \<open>The inputs of the examples\<close>

text \<open>Dates.\<close>

abbreviation d_2024_03_15 :: date where
  "d_2024_03_15 \<equiv> \<lparr>year = 2024, month = 3, day = 15\<rparr>"

abbreviation d_2024_02_10 :: date where
  "d_2024_02_10 \<equiv> \<lparr>year = 2024, month = 2, day = 10\<rparr>"

abbreviation d_2024_01_02 :: date where
  "d_2024_01_02 \<equiv> \<lparr>year = 2024, month = 1, day = 2\<rparr>"

abbreviation d_2023_12_30 :: date where
  "d_2023_12_30 \<equiv> \<lparr>year = 2023, month = 12, day = 30\<rparr>"

text \<open>"Lunch 120 yuan", with spaces, and the words \<open>jieba\<close> cuts it into; the same
  without spaces.\<close>

abbreviation txt_lunch :: ustring where
  "txt_lunch \<equiv> [c_wu_noon, c_can, c_space, 0x31, 0x32, 0x30, c_space, c_yuan]"

abbreviation words_lunch :: "ustring list" where
  "words_lunch \<equiv> [[c_wu_noon, c_can], [c_space], [0x31, 0x32, 0x30], [c_space], [c_yuan]]"

abbreviation txt_lunch_word :: ustring where
  "txt_lunch_word \<equiv> [c_wu_noon, c_can]"

abbreviation txt_lunch_120 :: ustring where
  "txt_lunch_120 \<equiv> [c_wu_noon, c_can, 0x31, 0x32, 0x30, c_yuan]"

text \<open>"Recycling entrance", four characters of which the middle two read "income", and
  its two words.\<close>

abbreviation txt_recycling :: ustring where
  "txt_recycling \<equiv> [c_hui, c_shou, c_ru, c_kou]"

abbreviation words_recycling :: "ustring list" where
  "words_recycling \<equiv> [[c_hui, c_shou], [c_ru, c_kou]]"

text \<open>"1000000000 days ago", "the last 1000000 months", "how much was spent this week",
  "how much was spent this month", "how much did dining cost last month", "the trend of the
  last 3 months".\<close>

abbreviation txt_days_ago_huge :: ustring where
  "txt_days_ago_huge \<equiv> [0x31, 0x30, 0x30, 0x30, 0x30, 0x30, 0x30, 0x30, 0x30, 0x30, c_tian,
      c_qian_before]"

abbreviation txt_months_huge :: ustring where
  "txt_months_huge \<equiv> [c_jin_near, 0x31, 0x30, 0x30, 0x30, 0x30, 0x30, 0x30, c_ge, c_yue]"

abbreviation txt_this_week :: ustring where
  "txt_this_week \<equiv> [c_zhe, c_zhou, c_hua, c_le, c_duo, c_shao]"

abbreviation txt_this_month :: ustring where
  "txt_this_month \<equiv> [c_zhe, c_ge, c_yue, c_hua, c_le, c_duo, c_shao]"

abbreviation txt_last_month_dining :: ustring where
  "txt_last_month_dining \<equiv> [c_shang, c_ge, c_yue, c_can, c_yin, c_hua, c_duo, c_shao]"

abbreviation txt_trend_3_months :: ustring where
  "txt_trend_3_months \<equiv> [c_jin_near, 0x33, c_ge, c_yue, c_qu, c_shi_trend]"

text \<open>"The 31st" and "3 days ago".\<close>

abbreviation txt_31st :: ustring where
  "txt_31st \<equiv> [0x33, 0x31, c_hao]"

abbreviation txt_3_days_ago :: ustring where
  "txt_3_days_ago \<equiv> [0x33, c_tian, c_qian_before]"

text \<open>"2 days ago" in its four writings: with the digit 2, with the numeral \<open>er\<close>, and
  with the numeral \<open>liang\<close> in its traditional and its simplified form. The last two
  are how the phrase is usually written.\<close>

abbreviation txt_2_days_ago :: ustring where
  "txt_2_days_ago \<equiv> [0x32, c_tian, c_qian_before]"

abbreviation txt_er_days_ago :: ustring where
  "txt_er_days_ago \<equiv> [c_er, c_tian, c_qian_before]"

abbreviation txt_liang_days_ago :: ustring where
  "txt_liang_days_ago \<equiv> [c_liang, c_tian, c_qian_before]"

abbreviation txt_liang_simplified_days_ago :: ustring where
  "txt_liang_simplified_days_ago \<equiv> [c_liang_simplified, c_tian, c_qian_before]"

abbreviation d_2024_03_13 :: date where
  "d_2024_03_13 \<equiv> \<lparr>year = 2024, month = 3, day = 13\<rparr>"

text \<open>"50" in Thai digits.\<close>

abbreviation txt_thai_50 :: ustring where
  "txt_thai_50 \<equiv> [0xE55, 0xE50]"

text \<open>"Five hundred yuan, 3 in all" and "bought 3 apples, five hundred yuan".\<close>

abbreviation txt_500_yuan_total_3 :: ustring where
  "txt_500_yuan_total_3 \<equiv> [c_wu, c_bai, c_yuan, c_space, c_gong, 0x33]"

abbreviation txt_3_apples_500_yuan :: ustring where
  "txt_3_apples_500_yuan \<equiv> [c_mai, 0x33, c_ge, c_ping, c_guo, c_wu, c_bai, c_yuan]"

text \<open>The category names "dining", "other income" and "other", the character "meal" as
  a keyword, and the numeral "five hundred".\<close>

abbreviation cat_dining :: ustring where
  "cat_dining \<equiv> [c_can, c_yin]"

abbreviation cat_other_income :: ustring where
  "cat_other_income \<equiv> [c_qi_other, c_ta, c_shou, c_ru]"

abbreviation cat_other :: ustring where
  "cat_other \<equiv> [c_qi_other, c_ta]"

abbreviation txt_wu_bai :: ustring where
  "txt_wu_bai \<equiv> [c_wu, c_bai]"

section \<open>Evaluating the character classes\<close>

text \<open>
  ASCII digits are the only decimal digits below U+0660, and there is no decimal digit
  and no whitespace among the CJK ideographs.
\<close>

lemma is_decimal_ascii: "c < 0x660 \<Longrightarrow> is_decimal c = (0x30 \<le> c \<and> c \<le> 0x39)"
  unfolding is_decimal_def digit_zeros_def by (simp, arith)

lemma is_decimal_cjk: "0x1C5A \<le> c \<Longrightarrow> c < 0xA620 \<Longrightarrow> \<not> is_decimal c"
  unfolding is_decimal_def digit_zeros_def by simp

lemma digit_value_ascii: "0x30 \<le> c \<Longrightarrow> c \<le> 0x39 \<Longrightarrow> digit_value c = int c - 0x30"
  unfolding digit_value_def digit_zeros_def by simp

lemma is_space_cjk: "0x3000 < c \<Longrightarrow> \<not> is_space c"
  unfolding is_space_def whitespace_chars_def by auto

lemma is_space_ascii: "c < 0x85 \<Longrightarrow> is_space c = (c \<in> {0x9, 0xA, 0xB, 0xC, 0xD, 0x1C, 0x1D, 0x1E,
    0x1F, 0x20})"
  unfolding is_space_def whitespace_chars_def by auto

lemmas char_eval =
  is_decimal_ascii is_decimal_cjk digit_value_ascii is_space_cjk is_space_ascii

lemmas rx_eval =
  Plus_def Opt_def Chr_def Cls_def Digit_def Space_def group_def

lemmas date_eval =
  date_ok_def days_in_month_def is_leap_def mk_date_def replace_day_def c_int_max_def
  prev_day_def next_day_def date_sub_def date_add_def timedelta_def found_def

lemmas date_parser_eval =
  DateParser_parse_def parse_days_ago_def parse_weekday_def parse_last_month_day_def
  parse_this_month_day_def parse_month_day_def parse_full_date_def
  pat_days_ago_def pat_weekday_def pat_last_month_day_def pat_this_month_day_def
  pat_month_day_def pat_full_date_def Digit12_def chinese_digits_1_10_def
  DateParser_parse_chinese_number_def DateParser_CHINESE_NUMS_def WEEKDAY_MAP_def
  strip_def isdigit_def py_int_def dict_get_def

lemmas amount_eval =
  extract_amount_def extract_chinese_amount_def any_number_def amount_patterns_def
  pat_amount_unit_def pat_amount_dollar_def pat_amount_nt_def pat_amount_unit_or_end_def
  pat_chinese_amount_def Number_def currency_units_def chinese_to_number_def
  chinese_step_def CHINESE_NUMS_def float_of_int_def py_float_def py_int_def

lemmas query_eval =
  parse_query_def query_period_def query_months_def query_category_def query_chart_def
  query_kind_of_def pat_months_def chinese_digits_1_10_def NLPParser_parse_chinese_number_def
  isdigit_def py_int_def dict_get_def

section \<open>Substrings\<close>

text \<open>\<open>contains\<close> decides whether a string occurs in a text.\<close>

lemma starts_with_iff: "starts_with xs s \<longleftrightarrow> (\<exists>post. xs = s @ post)"
  by (induction xs s rule: starts_with.induct) auto

lemma contains_iff: "contains txt s \<longleftrightarrow> occurs_in s txt"
  unfolding occurs_in_def
proof (induction "txt")
  case Nil
  then show ?case by auto
next
  case (Cons x xs)
  show ?case
  proof
    assume "contains (x # xs) s"
    then consider "starts_with (x # xs) s" | "contains xs s" by auto
    then show "\<exists>pre post. x # xs = pre @ s @ post"
    proof cases
      case 1
      then obtain post where "x # xs = s @ post" by (auto simp: starts_with_iff)
      then have "x # xs = [] @ s @ post" by simp
      then show ?thesis by blast
    next
      case 2
      then obtain pre post where "xs = pre @ s @ post" using Cons.IH by auto
      then have "x # xs = (x # pre) @ s @ post" by simp
      then show ?thesis by blast
    qed
  next
    assume "\<exists>pre post. x # xs = pre @ s @ post"
    then obtain pre post where eq: "x # xs = pre @ s @ post" by blast
    show "contains (x # xs) s"
    proof (cases pre)
      case Nil
      then have "starts_with (x # xs) s" using eq by (auto simp: starts_with_iff)
      then show ?thesis by simp
    next
      case (Cons p ps)
      then have "xs = ps @ s @ post" using eq by simp
      then have "contains xs s" using Cons.IH by blast
      then show ?thesis by simp
    qed
  qed
qed

section \<open>Calendar arithmetic\<close>

lemma days_in_month_bounds: "28 \<le> days_in_month y m \<and> days_in_month y m \<le> 31"
  by (simp add: days_in_month_def)

lemma date_sub_one: "date_sub d 1 = prev_day d"
  by (simp add: date_sub_def timedelta_def split: sum.splits)

text \<open>
  One turn of the loop that walks the start date back: from the first of a month it
  reaches the first of the month before, or fails in January of year 1.
\<close>

lemma month_step:
  assumes "date_ok s" "day s = 1"
  shows "(month_index s = 0 \<and> date_sub s 1 = Inl OverflowError) \<or>
         (\<exists>d s'. date_sub s 1 = Inr d \<and> replace_day d 1 = Inr s' \<and> date_ok s' \<and>
            day s' = 1 \<and> month_index s' = month_index s - 1 \<and> date_le s' s)"
proof -
  have b: "\<And>y m. 1 \<le> days_in_month y m" using days_in_month_bounds[of _ _] by (smt (verit))
  show ?thesis
    using assms b[of "year s" "month s - 1"]
    unfolding date_sub_one
    by (auto simp: prev_day_def replace_day_def mk_date_def date_ok_def month_index_def
        c_int_max_def date_le_def days_in_month_def)
qed

lemma months_back_overflow:
  "date_ok s \<Longrightarrow> day s = 1 \<Longrightarrow> month_index s < int n \<Longrightarrow> months_back n s = Inl OverflowError"
proof (induction n arbitrary: s)
  case 0
  then show ?case by (simp add: month_index_def date_ok_def)
next
  case (Suc n)
  from month_step[OF Suc.prems(1,2)] show ?case
  proof (elim disjE conjE exE)
    assume "date_sub s 1 = Inl OverflowError"
    then show ?thesis by simp
  next
    fix d s'
    assume h: "date_sub s 1 = Inr d" "replace_day d 1 = Inr s'" "date_ok s'" "day s' = 1"
      "month_index s' = month_index s - 1"
    then have "months_back n s' = Inl OverflowError"
      using Suc.IH[of s'] Suc.prems(3) by simp
    then show ?thesis using h by simp
  qed
qed

lemma months_back_le:
  "date_ok s \<Longrightarrow> day s = 1 \<Longrightarrow> months_back n s = Inr d \<Longrightarrow> date_le d s \<and> date_ok d"
proof (induction n arbitrary: s)
  case 0
  then show ?case by (simp add: date_le_def)
next
  case (Suc n)
  from month_step[OF Suc.prems(1,2)] show ?case
  proof (elim disjE conjE exE)
    assume "date_sub s 1 = Inl OverflowError"
    then show ?thesis using Suc.prems(3) by simp
  next
    fix d0 s'
    assume h: "date_sub s 1 = Inr d0" "replace_day d0 1 = Inr s'" "date_ok s'" "day s' = 1"
      "date_le s' s"
    then have "months_back n s' = Inr d" using Suc.prems(3) by simp
    then have "date_le d s' \<and> date_ok d" using Suc.IH[of s'] h by simp
    then show ?thesis using h(5) by (auto simp: date_le_def)
  qed
qed

text \<open>The ordinal of a date counts its days: the day before has the ordinal before.\<close>

lemma days_before_month_first: "days_before_month y 1 = 0"
  by (simp add: days_before_month_def)

lemma days_before_month_step:
  "1 < m \<Longrightarrow> days_before_month y m = days_before_month y (m - 1) + days_in_month y (m - 1)"
  by (simp add: days_before_month_def upto_rec2[of 1 "m - 1"])

lemma days_before_month_december:
  "days_before_month y 12 + 31 = (if is_leap y then 366 else 365)"
  by (simp add: days_before_month_step days_before_month_first days_in_month_def)

lemma days_before_year_one: "days_before_year 1 = 0"
  by (simp add: days_before_year_def)



lemma div_step: "0 < k \<Longrightarrow> (y::int) div k = (y - 1) div k + (if y mod k = 0 then 1 else 0)"
proof (cases "y mod k = 0")
  case True
  assume k: "0 < k"
  from True obtain q where q: "y = k * q" by (metis mod_eq_0_iff_dvd dvd_def)
  have "(k * q - 1) div k = q - 1"
  proof -
    have "k * q - 1 = (k - 1) + k * (q - 1)" by (simp add: algebra_simps)
    then have "(k * q - 1) div k = (k - 1) div k + (q - 1)"
      using k by (metis add.commute div_mult_self2 less_irrefl)
    then show ?thesis using k by simp
  qed
  then show ?thesis using True q k by simp
next
  case False
  assume k: "0 < k"
  have p: "0 < y mod k" using False k by (simp add: order_less_le)
  have b: "y mod k < k" using k by simp
  have "y - 1 = (y mod k - 1) + k * (y div k)" by (simp add: algebra_simps)
  then have "(y - 1) div k = (y mod k - 1) div k + y div k"
    using k by (metis add.commute div_mult_self2 less_irrefl)
  moreover have "(y mod k - 1) div k = 0"
    using p b by (simp add: div_pos_pos_trivial)
  ultimately show ?thesis using False by simp
qed

lemma mod_100_4: "(y::int) mod 100 = 0 \<Longrightarrow> y mod 4 = 0"
  using mod_mod_cancel[of 4 100 y] by simp

lemma mod_400_100: "(y::int) mod 400 = 0 \<Longrightarrow> y mod 100 = 0"
  using mod_mod_cancel[of 100 400 y] by simp

lemma days_before_year_step:
  "days_before_year (y + 1) = days_before_year y + (if is_leap y then 366 else 365)"
proof -
  have a: "y div 4 = (y - 1) div 4 + (if y mod 4 = 0 then 1 else 0)" by (rule div_step) simp
  have b: "y div 100 = (y - 1) div 100 + (if y mod 100 = 0 then 1 else 0)" by (rule div_step) simp
  have c: "y div 400 = (y - 1) div 400 + (if y mod 400 = 0 then 1 else 0)" by (rule div_step) simp
  have e: "days_before_year (y + 1) = y * 365 + y div 4 - y div 100 + y div 400"
    by (simp add: days_before_year_def)
  have f: "days_before_year y = (y - 1) * 365 + (y - 1) div 4 - (y - 1) div 100 + (y - 1) div 400"
    by (simp add: days_before_year_def)
  consider "y mod 400 = 0" | "y mod 400 \<noteq> 0" "y mod 100 = 0"
    | "y mod 100 \<noteq> 0" "y mod 4 = 0" | "y mod 4 \<noteq> 0"
    by blast
  then show ?thesis
  proof cases
    case 1
    then have h: "y mod 100 = 0" by (rule mod_400_100)
    then have g: "y mod 4 = 0" by (rule mod_100_4)
    have l: "(if is_leap y then 366 else 365) = (366::int)" using 1 g by (simp add: is_leap_def)
    have d: "y div 4 = (y - 1) div 4 + 1" "y div 100 = (y - 1) div 100 + 1"
      "y div 400 = (y - 1) div 400 + 1"
      using a b c 1 h g by presburger+
    show ?thesis unfolding e f l d by (simp add: algebra_simps)
  next
    case 2
    have g: "y mod 4 = 0" using 2(2) by (rule mod_100_4)
    have l: "(if is_leap y then 366 else 365) = (365::int)" using 2 g by (simp add: is_leap_def)
    have d: "y div 4 = (y - 1) div 4 + 1" "y div 100 = (y - 1) div 100 + 1"
      "y div 400 = (y - 1) div 400"
      using a b c 2 g by presburger+
    show ?thesis unfolding e f l d by (simp add: algebra_simps)
  next
    case 3
    have n: "y mod 400 \<noteq> 0" using 3(1) mod_400_100[of y] by auto
    have l: "(if is_leap y then 366 else 365) = (366::int)" using 3 by (simp add: is_leap_def)
    have d: "y div 4 = (y - 1) div 4 + 1" "y div 100 = (y - 1) div 100"
      "y div 400 = (y - 1) div 400"
      using a b c 3 n by presburger+
    show ?thesis unfolding e f l d by (simp add: algebra_simps)
  next
    case 4
    have n1: "y mod 100 \<noteq> 0" using 4 mod_100_4[of y] by auto
    have n4: "y mod 400 \<noteq> 0" using n1 mod_400_100[of y] by auto
    have l: "(if is_leap y then 366 else 365) = (365::int)" using 4 by (simp add: is_leap_def)
    have d: "y div 4 = (y - 1) div 4" "y div 100 = (y - 1) div 100"
      "y div 400 = (y - 1) div 400"
      using a b c 4 n1 n4 by presburger+
    show ?thesis unfolding e f l d by (simp add: algebra_simps)
  qed
qed

lemma prev_day_ordinal:
  assumes "date_ok d" "1 < toordinal d"
  shows "\<exists>d'. prev_day d = Inr d' \<and> date_ok d' \<and> toordinal d' = toordinal d - 1"
proof -
  consider "1 < day d" | "day d = 1" "1 < month d" | "day d = 1" "month d = 1" "1 < year d"
    | "day d = 1" "month d = 1" "year d = 1"
    using assms(1) unfolding date_ok_def by atomize_elim linarith
  then show ?thesis
  proof cases
    case 1
    then show ?thesis using assms(1)
      by (auto simp: prev_day_def date_ok_def toordinal_def)
  next
    case 2
    have "1 \<le> days_in_month (year d) (month d - 1)"
      using days_in_month_bounds[of "year d" "month d - 1"] by linarith
    then show ?thesis using assms(1) 2
      by (auto simp: prev_day_def date_ok_def toordinal_def days_before_month_step)
  next
    case 3
    have "days_before_year (year d - 1 + 1) =
          days_before_year (year d - 1) + (if is_leap (year d - 1) then 366 else 365)"
      by (rule days_before_year_step)
    then have "days_before_year (year d) =
          days_before_year (year d - 1) + days_before_month (year d - 1) 12 + 31"
      using days_before_month_december[of "year d - 1"] by simp
    then show ?thesis using assms(1) 3
      by (auto simp: prev_day_def date_ok_def toordinal_def days_before_month_first
          days_in_month_def)
  next
    case 4
    then have "toordinal d = 1"
      by (simp add: toordinal_def days_before_year_one days_before_month_first)
    then show ?thesis using assms(2) by simp
  qed
qed

lemma back_days_ordinal:
  "date_ok d \<Longrightarrow> int n < toordinal d \<Longrightarrow>
   \<exists>d'. back_days n d = Inr d' \<and> date_ok d' \<and> toordinal d' = toordinal d - int n"
proof (induction n arbitrary: d)
  case 0
  then show ?case by simp
next
  case (Suc n)
  then have "1 < toordinal d" by simp
  then obtain d1 where d1: "prev_day d = Inr d1" "date_ok d1" "toordinal d1 = toordinal d - 1"
    using prev_day_ordinal[OF Suc.prems(1)] by blast
  then have "int n < toordinal d1" using Suc.prems(2) by simp
  then obtain d' where "back_days n d1 = Inr d'" "date_ok d'" "toordinal d' = toordinal d1 - int
      n"
    using Suc.IH[OF d1(2)] by blast
  then show ?case using d1 by simp
qed

text \<open>Later dates have larger ordinals, so a valid date is known by its ordinal.\<close>

lemma days_before_year_mono_nat: "days_before_year y \<le> days_before_year (y + int k)"
proof (induction k)
  case 0
  then show ?case by simp
next
  case (Suc k)
  have e: "y + int (Suc k) = y + int k + 1" by simp
  have "days_before_year (y + int k + 1) =
        days_before_year (y + int k) + (if is_leap (y + int k) then 366 else 365)"
    by (rule days_before_year_step)
  moreover have "(365::int) \<le> (if is_leap (y + int k) then 366 else 365)" by simp
  ultimately have "days_before_year (y + int k) \<le> days_before_year (y + int k + 1)"
    by linarith
  then show ?case using Suc unfolding e by linarith
qed

lemma days_before_year_mono: "y \<le> y' \<Longrightarrow> days_before_year y \<le> days_before_year y'"
  using days_before_year_mono_nat[of y "nat (y' - y)"] by simp

lemma days_before_month_next:
  "1 \<le> m \<Longrightarrow> days_before_month y (m + 1) = days_before_month y m + days_in_month y m"
  using days_before_month_step[of "m + 1" y] by simp

lemma days_before_month_later:
  "1 \<le> m \<Longrightarrow> days_before_month y m + days_in_month y m \<le> days_before_month y (m + 1 + int k)"
proof (induction k)
  case 0
  then show ?case by (simp add: days_before_month_next)
next
  case (Suc k)
  have "days_before_month y (m + 1 + int k + 1) =
        days_before_month y (m + 1 + int k) + days_in_month y (m + 1 + int k)"
    using Suc.prems by (intro days_before_month_next) simp
  moreover have "0 \<le> days_in_month y (m + 1 + int k)"
    using days_in_month_bounds[of y "m + 1 + int k"] by linarith
  ultimately have "days_before_month y (m + 1 + int k) \<le> days_before_month y (m + 1 + int (Suc
      k))"
    by (simp add: add.assoc)
  then show ?case using Suc by linarith
qed

lemma days_before_month_less:
  assumes "1 \<le> m" "m < m'"
  shows "days_before_month y m + days_in_month y m \<le> days_before_month y m'"
  using days_before_month_later[OF assms(1), of y "nat (m' - m - 1)"] assms(2) by simp

lemma days_before_month_nonneg: "1 \<le> m \<Longrightarrow> 0 \<le> days_before_month y m"
proof -
  assume m: "1 \<le> m"
  show ?thesis
  proof (cases "m = 1")
    case True
    then show ?thesis by (simp add: days_before_month_first)
  next
    case False
    then have "1 < m" using m by simp
    then have "days_before_month y 1 + days_in_month y 1 \<le> days_before_month y m"
      by (intro days_before_month_less) simp_all
    then show ?thesis using days_in_month_bounds[of y 1] by (simp add: days_before_month_first)
  qed
qed

lemma days_before_month_end:
  assumes "1 \<le> m" "m \<le> 12"
  shows "days_before_month y m + days_in_month y m \<le> (if is_leap y then 366 else 365)"
proof (cases "m = 12")
  case True
  then show ?thesis using days_before_month_december[of y] by (simp add: days_in_month_def)
next
  case False
  then have "m < 12" using assms by simp
  then have "days_before_month y m + days_in_month y m \<le> days_before_month y 12"
    using assms(1) by (intro days_before_month_less)
  then show ?thesis using days_before_month_december[of y] by (simp split: if_splits)
qed

lemma toordinal_in_year:
  assumes "date_ok d"
  shows "days_before_year (year d) < toordinal d \<and> toordinal d \<le> days_before_year (year d + 1)"
proof -
  have m: "1 \<le> month d" "month d \<le> 12" and dd: "1 \<le> day d"
    "day d \<le> days_in_month (year d) (month d)"
    using assms by (simp_all add: date_ok_def)
  have "0 \<le> days_before_month (year d) (month d)" using m(1) by (rule days_before_month_nonneg)
  moreover have "days_before_month (year d) (month d) + days_in_month (year d) (month d)
      \<le> (if is_leap (year d) then 366 else 365)"
    using m by (rule days_before_month_end)
  ultimately show ?thesis
    using dd days_before_year_step[of "year d"] by (simp add: toordinal_def split: if_splits)
qed

lemma toordinal_year_less:
  assumes "date_ok a" "date_ok b" "year a < year b"
  shows "toordinal a < toordinal b"
proof -
  have "toordinal a \<le> days_before_year (year a + 1)" using toordinal_in_year[OF assms(1)] by simp
  also have "\<dots> \<le> days_before_year (year b)" using assms(3) by (intro days_before_year_mono) simp
  also have "\<dots> < toordinal b" using toordinal_in_year[OF assms(2)] by simp
  finally show ?thesis .
qed

lemma toordinal_month_less:
  assumes "date_ok a" "date_ok b" "year a = year b" "month a < month b"
  shows "toordinal a < toordinal b"
proof -
  have "days_before_month (year a) (month a) + days_in_month (year a) (month a)
        \<le> days_before_month (year a) (month b)"
    using assms(1,4) by (intro days_before_month_less) (simp_all add: date_ok_def)
  then show ?thesis using assms by (simp add: toordinal_def date_ok_def)
qed

lemma toordinal_inj:
  assumes "date_ok a" "date_ok b" "toordinal a = toordinal b"
  shows "a = b"
proof -
  have y: "year a = year b"
    using toordinal_year_less[OF assms(1,2)] toordinal_year_less[OF assms(2,1)] assms(3)
    by linarith
  have m: "month a = month b"
    using toordinal_month_less[OF assms(1,2) y] toordinal_month_less[OF assms(2,1)] y assms(3)
    by force
  have "day a = day b" using assms(3) y m by (simp add: toordinal_def)
  then show ?thesis using y m by simp
qed

text \<open>The order of dates, and the first day of the month and of the year of a date.\<close>

lemma date_le_refl: "date_le d d"
  by (simp add: date_le_def)

lemma date_le_trans: "date_le a b \<Longrightarrow> date_le b c \<Longrightarrow> date_le a c"
  by (auto simp: date_le_def)

lemma first_of_month:
  assumes "date_ok today"
  shows "\<exists>f. replace_day today 1 = Inr f \<and> date_ok f \<and> day f = 1 \<and> date_le f today"
  using assms days_in_month_bounds[of "year today" "month today"]
  by (auto simp: replace_day_def mk_date_def date_ok_def c_int_max_def date_le_def)

lemma first_of_year:
  assumes "date_ok today"
  shows "\<exists>f. mk_date (year today) 1 1 = Inr f \<and> date_le f today"
  using assms
  by (auto simp: mk_date_def date_ok_def c_int_max_def date_le_def days_in_month_def)

section \<open>Scores of the category classifier\<close>

lemma contains_set: "contains w k \<Longrightarrow> set k \<subseteq> set w"
  by (auto simp: contains_iff occurs_in_def)

lemma contains_singleton: "x \<in> set w \<Longrightarrow> contains w [x]"
  unfolding contains_iff occurs_in_def by (metis append_Cons append_Nil split_list)

text \<open>A word and a keyword that share no character do not match.\<close>

lemma no_match_disjoint:
  assumes "w \<noteq> []" "k \<noteq> []" "set w \<subseteq> T" "set k \<inter> T = {}"
  shows "\<not> (contains w k \<or> contains k w)"
proof
  assume "contains w k \<or> contains k w"
  then show False
  proof
    assume "contains w k"
    then have "set k \<subseteq> T" using contains_set assms(3) by blast
    moreover obtain x where "x \<in> set k" using assms(2) by (cases k) auto
    ultimately show False using assms(4) by blast
  next
    assume "contains k w"
    then have "set w \<subseteq> set k" by (rule contains_set)
    moreover obtain x where "x \<in> set w" using assms(1) by (cases w) auto
    ultimately show False using assms(3,4) by blast
  qed
qed

lemma keyword_score_zero:
  assumes "\<forall>w\<in>set words. w \<noteq> [] \<and> set w \<subseteq> T"
    and "\<forall>k\<in>set kws. k \<noteq> [] \<and> set k \<inter> T = {}"
  shows "keyword_score words kws = 0"
proof -
  have "filter (\<lambda>k. contains w k \<or> contains k w) kws = []" if "w \<in> set words" for w
    using that assms no_match_disjoint[of w _ T] by (auto simp: filter_empty_conv)
  then show ?thesis by (simp add: keyword_score_def)
qed

lemma keyword_score_pos:
  assumes "w \<in> set words" "k \<in> set kws" "contains w k \<or> contains k w"
  shows "0 < keyword_score words kws"
proof -
  have "k \<in> set (filter (\<lambda>k. contains w k \<or> contains k w) kws)" using assms by simp
  then have "0 < length (filter (\<lambda>k. contains w k \<or> contains k w) kws)"
    by (metis length_pos_if_in_set)
  then show ?thesis
    using assms(1) unfolding keyword_score_def
    by (metis (no_types, lifting) gr_zeroI imageI list.set_map sum_list_eq_0_iff)
qed

lemmas category_eval =
  extract_category_def category_scores_def keyword_score_def CATEGORY_KEYWORDS_def

section \<open>The numeral converter on the examples of the specification\<close>

text \<open>
  C1. The specification gives four values of the numeral converter: 500 for "five
  hundred", 2300 for "two thousand three hundred", 10000 for "one ten-thousand" and 35
  for "three ten five". The converter returns the first and the third. A digit that
  follows a magnitude is appended to the running segment as a decimal place, not
  added to it, so that the second comes out as 2000300 and the fourth as 305.
\<close>

theorem chinese_to_number_examples:
  "chinese_to_number txt_wu_bai = Inr 500 \<and>
   chinese_to_number [c_yi, c_wan] = Inr 10000 \<and>
   chinese_to_number [c_liang, c_qian, c_san, c_bai] = Inr 2000300 \<and>
   chinese_to_number [c_san, c_shi, c_wu] = Inr 305"
  by (simp add: chinese_to_number_def chinese_step_def CHINESE_NUMS_def float_of_int_def)

section \<open>The record of a lunch\<close>

text \<open>
  However the segmenter cuts "lunch 120 yuan" into words, as long as the words are not
  empty and make up the text, dining is the only category with a score: the character
  for "meal" falls into some word, and no keyword of another category shares a character
  with the text.
\<close>

lemma lunch_category:
  assumes "concat words = txt_lunch" "[] \<notin> set words"
  shows "extract_category words = Some cat_dining"
proof -
  let ?T = "set txt_lunch"
  have w: "\<forall>w\<in>set words. w \<noteq> [] \<and> set w \<subseteq> ?T"
  proof
    fix w assume "w \<in> set words"
    then have "set w \<subseteq> set (concat words)" by auto
    then show "w \<noteq> [] \<and> set w \<subseteq> ?T" using assms \<open>w \<in> set words\<close> by auto
  qed
  have z: "keyword_score words kws = 0" if "\<forall>k\<in>set kws. k \<noteq> [] \<and> set k \<inter> ?T = {}" for kws
    using keyword_score_zero[OF w that] .
  have "c_can \<in> set (concat words)" using assms(1) by simp
  then obtain w where ww: "w \<in> set words" "c_can \<in> set w" by auto
  then have "contains w [c_can]" by (simp add: contains_singleton)
  then have p: "0 < keyword_score words (snd (hd CATEGORY_KEYWORDS))"
    using keyword_score_pos[OF ww(1), of "[c_can]"] by (simp add: CATEGORY_KEYWORDS_def)
  have "category_scores words = [(cat_dining, keyword_score words (snd (hd CATEGORY_KEYWORDS)))]"
    using p unfolding category_scores_def
    by (simp add: CATEGORY_KEYWORDS_def z)
  then show ?thesis by (simp add: extract_category_def)
qed

lemma lunch_amount: "extract_amount txt_lunch = Inr (Some 120)"
  by (simp add: amount_eval rx_eval char_eval)

lemma lunch_date: "DateParser_parse today txt_lunch = Inr None"
  by (simp add: date_parser_eval rx_eval char_eval)

lemma lunch_description: "clean_description txt_lunch = txt_lunch_word"
  by (simp add: clean_description_def date_keywords_def amount_eval rx_eval char_eval strip_def)

lemma lunch_record:
  assumes "concat words = txt_lunch" "[] \<notin> set words"
  shows "NLPParser_parse words today txt_lunch =
     Inr \<lparr>r_amount = Some 120, r_type = Expense, r_category = cat_dining, r_date = today,
          r_description = txt_lunch_word, r_confidence = 4 / 5, r_raw_text = txt_lunch\<rparr>"
  by (simp add: NLPParser_parse_def lunch_amount lunch_date lunch_category[OF assms]
      lunch_description INCOME_CATEGORIES_def)

text \<open>
  C2, as the specification states it: the record of "lunch 120 yuan" has the amount
  120, the dining category, the expense kind, today's date and the confidence 0.9. With
  the words "lunch", " ", "120", " ", "yuan" on 15 March 2024 the parser returns
  another record: the text names no date, so the date signal adds nothing.
\<close>

theorem parse_lunch_counterexample:
  "NLPParser_parse words_lunch d_2024_03_15 txt_lunch
     \<noteq> Inr \<lparr>r_amount = Some 120, r_type = Expense, r_category = cat_dining,
              r_date = d_2024_03_15,
              r_description = txt_lunch_word, r_confidence = 9 / 10, r_raw_text = txt_lunch\<rparr>"
  by (simp add: lunch_record)

text \<open>
  C2, amended: whatever non-empty words the segmenter cuts the text into, the record of
  "lunch 120 yuan" has the amount 120, the dining category, the expense kind, today's date
  and the confidence 0.8, the sum of 0.4 for the amount and 0.4 for the category.
\<close>

theorem parse_lunch:
  assumes "concat words = txt_lunch" "[] \<notin> set words"
  shows "NLPParser_parse words today txt_lunch =
     Inr \<lparr>r_amount = Some 120, r_type = Expense, r_category = cat_dining, r_date = today,
          r_description = txt_lunch_word, r_confidence = 4 / 10 + 4 / 10, r_raw_text = txt_lunch\<rparr>"
  using lunch_record[OF assms] by simp

theorem parse_lunch_witness:
  "concat words_lunch = txt_lunch \<and>
   [] \<notin> set words_lunch \<and>
   NLPParser_parse words_lunch d_2024_03_15 txt_lunch =
     Inr \<lparr>r_amount = Some 120, r_type = Expense, r_category = cat_dining,
          r_date = d_2024_03_15,
          r_description = txt_lunch_word, r_confidence = 4 / 5, r_raw_text = txt_lunch\<rparr>"
proof -
  have a: "concat words_lunch = txt_lunch" by simp
  have b: "[] \<notin> set words_lunch" by simp
  show ?thesis
    using a b parse_lunch [OF a b, of "d_2024_03_15"] by simp
qed

section \<open>Inputs on which the parsers raise\<close>

text \<open>
  C3. The specification wants every parse to return a result and none to raise. On
  15 March 2024 the date parser and the record parser raise \<open>OverflowError\<close> on "a
  thousand million days ago", the query parser raises \<open>OverflowError\<close> on "the last
  million months", and it raises \<open>UnboundLocalError\<close> on "how much was spent this week".
\<close>

theorem parsers_raise:
  "DateParser_parse d_2024_03_15 txt_days_ago_huge = Inl OverflowError \<and>
   NLPParser_parse words d_2024_03_15 txt_days_ago_huge = Inl OverflowError \<and>
   parse_query d_2024_03_15 txt_months_huge = Inl OverflowError \<and>
   parse_query d_2024_03_15 txt_this_week = Inl UnboundLocalError"
proof -
  have a: "DateParser_parse d_2024_03_15 txt_days_ago_huge = Inl OverflowError"
    by (simp add: date_parser_eval rx_eval char_eval date_eval)
  have b: "extract_amount txt_days_ago_huge = Inr (Some 1000000000)"
    by (simp add: amount_eval rx_eval char_eval)
  have c: "months_back 999999 \<lparr>year = 2024, month = 3, day = 1\<rparr> = Inl OverflowError"
    by (rule months_back_overflow) (simp_all add: date_eval month_index_def)
  have d: "parse_query d_2024_03_15 txt_months_huge = Inl OverflowError"
    by (simp add: query_eval rx_eval char_eval date_eval c)
  have e: "parse_query d_2024_03_15 txt_this_week = Inl UnboundLocalError"
    by (simp add: query_eval date_eval)
  show ?thesis using a b d e by (simp add: NLPParser_parse_def)
qed

section \<open>A day that this month does not have\<close>

lemma this_month_day_text:
  "d \<in> {29, 30, 31} \<Longrightarrow> date_ok today \<Longrightarrow>
   int d > days_in_month (year today) (month today) \<Longrightarrow>
   DateParser_parse today (str_of_nat d @ [c_hao]) = Inr (Some today)"
  apply (elim insertE emptyE)
  apply (simp_all add: str_of_nat.simps[of "numeral n" for n] date_parser_eval rx_eval char_eval
      date_eval)
  done

text \<open>
  C4, as the specification states it: a day number beyond the length of this month
  resolves to the last day of this month. On 10 February 2024 the text "31st" resolves
  to 10 February, not to 29 February.
\<close>

theorem this_month_day_overflow_counterexample:
  "DateParser_parse d_2024_02_10 txt_31st
     \<noteq> Inr (Some \<lparr>year = 2024, month = 2, day = days_in_month 2024 2\<rparr>)"
  by (simp add: date_parser_eval rx_eval char_eval date_eval)

text \<open>
  C4, amended: for every date of the day and every day number from 1 to 31 that this
  month does not have, the day-of-this-month rule returns the date of the day itself, and
  does not raise.
\<close>

theorem this_month_day_overflow:
  assumes "date_ok today" "1 \<le> N" "N \<le> 31"
    and "days_in_month (year today) (month today) < int N"
  shows "DateParser_parse today (str_of_nat N @ [c_hao]) = Inr (Some today)"
proof -
  have "28 \<le> days_in_month (year today) (month today)" using days_in_month_bounds by blast
  then have "N \<in> {29, 30, 31}" using assms by auto
  then show ?thesis using assms(1,4) by (rule this_month_day_text)
qed

theorem this_month_day_overflow_witness:
  "date_ok d_2024_02_10 \<and> (1::nat) \<le> 31 \<and> (31::nat) \<le> 31 \<and>
   days_in_month 2024 2 < 31 \<and>
   DateParser_parse d_2024_02_10 txt_31st = Inr (Some d_2024_02_10)"
proof -
  have a: "days_in_month (year d_2024_02_10) (month d_2024_02_10) < int 31"
    by (simp add: date_eval)
  have c: "date_ok d_2024_02_10" by (simp add: date_eval)
  have b: "str_of_nat 31 @ [c_hao] = txt_31st"
    by (simp add: str_of_nat.simps[of "numeral n" for n])
  show ?thesis
    using this_month_day_overflow [OF c _ _ a] a b c by simp
qed

section \<open>The order of the attempts of the amount extractor\<close>

text \<open>
  C5, as the specification states it: a Chinese numeral with a currency unit is taken
  before any bare digit run. In "five hundred yuan, 3 in all" the numeral is worth 500, no
  digit run has a currency unit or a dollar sign, and the extractor returns 3: its
  fourth pattern accepts a digit run that ends the text.
\<close>

theorem extract_amount_chinese_first_counterexample:
  "chinese_to_number txt_wu_bai = Inr 500 \<and>
   extract_amount txt_500_yuan_total_3 = Inr (Some 3) \<and>
   extract_amount txt_500_yuan_total_3 \<noteq> Inr (Some 500)"
  by (simp add: amount_eval rx_eval char_eval)

text \<open>
  C5, amended: when none of the four digit patterns is found in the text (digits before
  a currency unit or before the end of the text, digits after a dollar sign or after NT),
  and the first Chinese numeral with a currency unit is worth \<open>v\<close>, not zero, the
  extractor returns \<open>v\<close>, whatever bare digit runs the text has.
\<close>

theorem extract_amount_chinese_first:
  assumes "first_match amount_patterns txt = None"
    and "re_search pat_chinese_amount txt = Some m"
    and "chinese_to_number (group m 1) = Inr v"
    and "v \<noteq> 0"
  shows "extract_amount txt = Inr (Some v)"
  using assms by (simp add: extract_amount_def extract_chinese_amount_def)

text \<open>"Bought 3 apples, five hundred yuan": the bare 3 is there and 500 is returned.\<close>

theorem extract_amount_chinese_first_witness:
  "first_match amount_patterns txt_3_apples_500_yuan = None \<and>
   re_search pat_chinese_amount txt_3_apples_500_yuan = Some [(1, txt_wu_bai)] \<and>
   chinese_to_number (group [(1, txt_wu_bai)] 1) = Inr 500 \<and>
   (500::rat) \<noteq> 0 \<and>
   any_number txt_3_apples_500_yuan = Some 3 \<and>
   extract_amount txt_3_apples_500_yuan = Inr (Some 500)"
proof -
  have a: "first_match amount_patterns txt_3_apples_500_yuan = None"
    by (simp add: amount_eval rx_eval char_eval)
  have b: "re_search pat_chinese_amount txt_3_apples_500_yuan = Some [(1, txt_wu_bai)]"
    by (simp add: amount_eval rx_eval char_eval)
  have c: "chinese_to_number (group [(1, txt_wu_bai)] 1) = Inr 500"
    by (simp add: amount_eval rx_eval)
  have d: "(500::rat) \<noteq> 0" by simp
  have e: "any_number txt_3_apples_500_yuan = Some 3"
    by (simp add: amount_eval rx_eval char_eval)
  show ?thesis
    using a b c d e extract_amount_chinese_first [OF a b c d] by simp
qed

section \<open>The kind of a record and its category\<close>

text \<open>
  When the classifier finds a category, the kind of the record follows it. When it
  finds none, the kind is expense whatever the fallback category is.
\<close>

lemma kind_matches_found_category:
  assumes "NLPParser_parse words today txt = Inr r" "extract_category words = Some c"
  shows "r_category r = c \<and> (r_type r = Income \<longleftrightarrow> r_category r \<in> INCOME_CATEGORIES)"
  using assms by (auto simp: NLPParser_parse_def Let_def split: sum.splits if_splits)

lemma kind_of_fallback:
  assumes "NLPParser_parse words today txt = Inr r" "extract_category words = None"
  shows "r_type r = Expense \<and>
         r_category r = (if contains txt [c_shou, c_ru] then cat_other_income else cat_other)"
  using assms by (auto simp: NLPParser_parse_def Let_def split: sum.splits if_splits)

text \<open>
  C6. The specification wants the kind of a record to be income exactly when its
  category is an income category, the fallback category included. When no keyword
  matches and the text holds the income marker, the parser falls back on the income
  category "other income" and leaves the kind at expense. It does so on the four
  characters "recycling entrance", cut into "recycling" and "entrance": the marker
  straddles the two words and no keyword matches either.
\<close>

theorem fallback_income_category_is_expense:
  "NLPParser_parse words_recycling d_2024_03_15 txt_recycling =
     Inr \<lparr>r_amount = None, r_type = Expense, r_category = cat_other_income,
          r_date = d_2024_03_15,
          r_description = txt_recycling, r_confidence = 1 / 10, r_raw_text = txt_recycling\<rparr> \<and>
   cat_other_income \<in> INCOME_CATEGORIES"
proof -
  have a: "extract_amount txt_recycling = Inr None"
    by (simp add: amount_eval rx_eval char_eval)
  have b: "DateParser_parse d_2024_03_15 txt_recycling = Inr None"
    by (simp add: date_parser_eval rx_eval char_eval)
  have c: "extract_category words_recycling = None"
    by (simp add: category_eval)
  have d: "clean_description txt_recycling = txt_recycling"
    by (simp add: clean_description_def date_keywords_def amount_eval rx_eval char_eval strip_def)
  show ?thesis
    by (simp add: NLPParser_parse_def a b c d INCOME_CATEGORIES_def)
qed

section \<open>The query for last month\<close>

text \<open>
  C7. The specification gives, for "how much did dining cost last month" asked on
  15 March 2024, the range from 1 to 29 February 2024 with the dining category. The
  branch of \<open>parse_query\<close> for last month reads \<open>timedelta\<close> before the function has
  bound it, so the call raises \<open>UnboundLocalError\<close> and returns no range.
\<close>

theorem parse_query_last_month_raises:
  "parse_query d_2024_03_15 txt_last_month_dining = Inl UnboundLocalError"
  by (simp add: query_eval date_eval)

text \<open>The date and the rest of the text do not matter: the branch for last month always
  raises.\<close>

lemma parse_query_last_month_always_raises:
  assumes "date_ok today" "contains txt [c_shang, c_ge, c_yue] \<or> contains txt [c_shang, c_yue]"
    and "\<not> contains txt [c_jin, c_tian]" "\<not> contains txt [c_jin, c_ri]"
    and "\<not> contains txt [c_zhe, c_zhou]" "\<not> contains txt [c_ben, c_zhou]"
  shows "parse_query today txt = Inl UnboundLocalError"
proof -
  obtain f where "replace_day today 1 = Inr f" using first_of_month[OF assms(1)] by blast
  then show ?thesis using assms(2-) by (auto simp: parse_query_def query_period_def)
qed

section \<open>Days ago\<close>

lemma str_of_nat_one: "str_of_nat (Suc 0) = [49]"
  by (simp add: str_of_nat.simps[of "Suc 0"])

lemma one_to_31:
  "1 \<le> N \<Longrightarrow> N \<le> 31 \<Longrightarrow>
   N \<in> {1::nat, 2, 3, 4, 5, 6, 7, 8, 9, 10, 11, 12, 13, 14, 15, 16, 17, 18, 19, 20, 21, 22, 23,
          24, 25, 26, 27, 28, 29, 30, 31}"
  by (simp, arith)

text \<open>The rule on each day count from 1 to 31 in Arabic digits, for any date of the day.\<close>

lemma days_ago_arabic:
  "N \<in> {1::nat, 2, 3, 4, 5, 6, 7, 8, 9, 10, 11, 12, 13, 14, 15, 16, 17, 18, 19, 20, 21, 22, 23,
          24, 25, 26, 27, 28, 29, 30, 31} \<Longrightarrow>
   DateParser_parse today (str_of_nat N @ [c_tian,
       c_qian_before]) = found (date_sub today (int N))"
  apply (elim insertE emptyE)
  apply (simp_all add: str_of_nat.simps[of "numeral n" for n] str_of_nat_one
      date_parser_eval rx_eval char_eval)
  done

text \<open>
  In Arabic digits, "N days ago" resolves to the date whose ordinal is N less than
  today's, provided that date exists; by \<open>toordinal_inj\<close> it is the only valid date with
  that ordinal, so the months and the years roll over as the calendar does.
\<close>

lemma days_ago_arabic_resolves:
  assumes "date_ok today" "1 \<le> N" "N \<le> 31" "int N < toordinal today"
  shows "\<exists>d. DateParser_parse today (str_of_nat N @ [c_tian, c_qian_before]) = Inr (Some d) \<and>
             date_ok d \<and> toordinal d = toordinal today - int N"
proof -
  have n: "N \<in> {1::nat, 2, 3, 4, 5, 6, 7, 8, 9, 10, 11, 12, 13, 14, 15, 16, 17, 18, 19, 20, 21,
                 22, 23, 24, 25, 26, 27, 28, 29, 30, 31}"
    using assms(2,3) by (rule one_to_31)
  have s: "date_sub today (int N) = back_days N today"
    using assms(3) by (simp add: date_sub_def timedelta_def)
  obtain d where d: "back_days N today = Inr d" "date_ok d"
      "toordinal d = toordinal today - int N"
    using back_days_ordinal[OF assms(1,4)] by blast
  have "DateParser_parse today (str_of_nat N @ [c_tian, c_qian_before]) = Inr (Some d)"
    using days_ago_arabic[OF n] s d(1) by (simp add: found_def)
  then show ?thesis using d(2,3) by blast
qed

lemma back_days_numeral:
  "back_days (numeral k) d =
     (case prev_day d of Inl e \<Rightarrow> Inl e | Inr d' \<Rightarrow> back_days (pred_numeral k) d')"
  by (simp add: numeral_eq_Suc)

text \<open>The example of the specification: three days before 2 January is 30 December of
  the year before.\<close>

lemma three_days_before_2_january:
  "DateParser_parse d_2024_01_02 txt_3_days_ago = Inr (Some d_2023_12_30)"
  by (simp add: date_parser_eval rx_eval char_eval date_eval back_days_numeral)

text \<open>
  C8. The specification wants "N days ago" to resolve to today minus N days for every
  N from 1 to 31, in Arabic digits or in Chinese numerals. The table of the date parser
  gives the numeral \<open>liang\<close> the value 2, in both its forms, and the pattern of the rule
  leaves both out of its character class. On 15 March 2024 "2 days ago" resolves to
  13 March when it is written with the digit or with the numeral \<open>er\<close>; written with
  \<open>liang\<close>, no rule matches and the parser finds no date.
\<close>

theorem days_ago_liang_finds_no_date:
  "DateParser_parse d_2024_03_15 txt_liang_days_ago = Inr None \<and>
   DateParser_parse d_2024_03_15 txt_liang_simplified_days_ago = Inr None \<and>
   map_of DateParser_CHINESE_NUMS [c_liang] = Some 2 \<and>
   map_of DateParser_CHINESE_NUMS [c_liang_simplified] = Some 2 \<and>
   DateParser_parse d_2024_03_15 txt_2_days_ago = Inr (Some d_2024_03_13) \<and>
   DateParser_parse d_2024_03_15 txt_er_days_ago = Inr (Some d_2024_03_13)"
proof -
  have a: "DateParser_parse d_2024_03_15 txt_liang_days_ago = Inr None"
    by (simp add: date_parser_eval rx_eval char_eval)
  have b: "DateParser_parse d_2024_03_15 txt_liang_simplified_days_ago = Inr None"
    by (simp add: date_parser_eval rx_eval char_eval)
  have c: "map_of DateParser_CHINESE_NUMS [c_liang] = Some 2"
    "map_of DateParser_CHINESE_NUMS [c_liang_simplified] = Some 2"
    by (simp_all add: DateParser_CHINESE_NUMS_def)
  have d: "DateParser_parse d_2024_03_15 txt_2_days_ago = Inr (Some d_2024_03_13)"
    by (simp add: date_parser_eval rx_eval char_eval date_eval back_days_numeral)
  have e: "DateParser_parse d_2024_03_15 txt_er_days_ago = Inr (Some d_2024_03_13)"
    by (simp add: date_parser_eval rx_eval char_eval date_eval back_days_numeral)
  show ?thesis using a b c d e by simp
qed

section \<open>The range of a query\<close>

text \<open>Every step of \<open>parse_query\<close> keeps the end at today and the start no later.\<close>

lemma query_period_range:
  assumes "date_ok today" "query_period today txt r = Inr r1"
    and "q_end_date r = today" "date_le (q_start_date r) today"
  shows "q_end_date r1 = today \<and> date_le (q_start_date r1) today"
proof -
  obtain f where f: "replace_day today 1 = Inr f" "date_le f today"
    using first_of_month[OF assms(1)] by blast
  obtain y where y: "mk_date (year today) 1 1 = Inr y" "date_le y today"
    using first_of_year[OF assms(1)] by blast
  show ?thesis
    using assms(2-) f y
    by (auto simp: query_period_def date_le_refl split: if_splits)
qed

lemma query_months_range:
  assumes "date_ok today" "query_months today txt r = Inr r2"
    and "q_end_date r = today" "date_le (q_start_date r) today"
  shows "q_end_date r2 = today \<and> date_le (q_start_date r2) today"
proof (cases "re_search pat_months txt")
  case None
  then show ?thesis using assms by (simp add: query_months_def)
next
  case (Some m)
  obtain f where f: "replace_day today 1 = Inr f" "date_ok f" "day f = 1" "date_le f today"
    using first_of_month[OF assms(1)] by blast
  let ?n = "nat (NLPParser_parse_chinese_number (group m 1) - 1)"
  from assms(2) Some f(1) obtain d where
    d: "months_back ?n f = Inr d" "r2 = r\<lparr>q_start_date := d\<rparr>"
    by (auto simp: query_months_def Let_def split: sum.splits)
  have "date_le d f" using months_back_le[OF f(2,3) d(1)] by simp
  then have "date_le d today" using f(4) date_le_trans by blast
  then show ?thesis using d(2) assms(3) by simp
qed

lemma query_rest_dates:
  "q_start_date (query_kind_of txt (query_chart txt (query_category txt r))) = q_start_date r \<and>
   q_end_date (query_kind_of txt (query_chart txt (query_category txt r))) = q_end_date r"
  by (simp add: query_kind_of_def query_chart_def query_category_def split: option.splits)

text \<open>
  C9. For every text and every date of the day, the query that \<open>parse_query\<close> returns
  has a start date that is not after its end date.
\<close>

theorem parse_query_range_ordered:
  assumes "date_ok today" "parse_query today txt = Inr q"
  shows "date_le (q_start_date q) (q_end_date q)"
proof -
  obtain f where f: "replace_day today 1 = Inr f" "date_le f today"
    using first_of_month[OF assms(1)] by blast
  let ?r0 = "\<lparr>q_query_type = Summary, q_category = None, q_period = Month,
              q_start_date = f, q_end_date = today, q_chart_type = None\<rparr>"
  from assms(2) f(1) obtain r1 r2 where
    r1: "query_period today txt ?r0 = Inr r1" and
    r2: "query_months today txt r1 = Inr r2" and
    q: "q = query_kind_of txt (query_chart txt (query_category txt r2))"
    by (auto simp: parse_query_def split: sum.splits)
  have "q_end_date r1 = today \<and> date_le (q_start_date r1) today"
    using query_period_range[OF assms(1) r1] f(2) by simp
  then have "q_end_date r2 = today \<and> date_le (q_start_date r2) today"
    using query_months_range[OF assms(1) r2] by simp
  then show ?thesis using q query_rest_dates[of "txt" r2] by simp
qed

text \<open>"The trend of the last 3 months", asked on 15 March 2024: from 1 January.\<close>

theorem parse_query_range_ordered_witness:
  "date_ok d_2024_03_15 \<and>
   parse_query d_2024_03_15 txt_trend_3_months =
     Inr \<lparr>q_query_type = Trend, q_category = None, q_period = Month,
          q_start_date = \<lparr>year = 2024, month = 1, day = 1\<rparr>,
          q_end_date = d_2024_03_15, q_chart_type = Some Line\<rparr> \<and>
   date_le \<lparr>year = 2024, month = 1, day = 1\<rparr> d_2024_03_15"
proof -
  have a: "date_ok d_2024_03_15" by (simp add: date_eval)
  have b: "parse_query d_2024_03_15 txt_trend_3_months =
     Inr \<lparr>q_query_type = Trend, q_category = None, q_period = Month,
          q_start_date = \<lparr>year = 2024, month = 1, day = 1\<rparr>,
          q_end_date = d_2024_03_15, q_chart_type = Some Line\<rparr>"
    by (simp add: query_eval rx_eval char_eval date_eval CATEGORY_KEYWORDS_def numeral_2_eq_2)
  show ?thesis using a b parse_query_range_ordered [OF a b] by simp
qed

section \<open>The intent classifier\<close>

lemma star_iter_nonempty: "star_iter n f s \<noteq> []"
  by (cases n) auto

lemma rx_match_plus_digit:
  "rx_match (Plus Digit) (xs, g) \<noteq> [] \<longleftrightarrow> (\<exists>x rest. xs = x # rest \<and> is_decimal x)"
  by (cases xs) (auto simp: Plus_def Digit_def star_iter_nonempty)

lemma re_search_plus_digit:
  "re_search (Plus Digit) txt \<noteq> None \<longleftrightarrow> (\<exists>c\<in>set txt. is_decimal c)"
proof (induction "txt")
  case Nil
  have "rx_match (Plus Digit) ([], []) = []" using rx_match_plus_digit[of "[]" "[]"] by simp
  then show ?case by simp
next
  case (Cons x xs)
  show ?case
  proof (cases "is_decimal x")
    case True
    then have "rx_match (Plus Digit) (x # xs, []) \<noteq> []" by (simp add: rx_match_plus_digit)
    then show ?thesis using True by (auto split: list.splits)
  next
    case False
    then have "rx_match (Plus Digit) (x # xs, []) = []"
      using rx_match_plus_digit[of "x # xs" "[]"] by simp
    then show ?thesis using False Cons.IH by simp
  qed
qed

lemma arabic_digit_is_decimal: "is_arabic_digit c \<Longrightarrow> is_decimal c"
  by (simp add: is_arabic_digit_def is_decimal_ascii)

text \<open>
  C10, as the specification states it: without a query keyword and without an analysis
  keyword, the classifier answers Record exactly when the text has an Arabic digit. The
  pattern \<open>\d\<close> of the classifier matches the decimal digits of every script, so "50"
  in Thai digits, which has no Arabic digit and no keyword, is a Record.
\<close>

theorem detect_intent_arabic_digit_counterexample:
  "detect_intent txt_thai_50 = Record \<and>
   \<not> list_ex is_arabic_digit txt_thai_50 \<and>
   \<not> list_ex (contains txt_thai_50) query_keywords \<and>
   \<not> list_ex (contains txt_thai_50) analysis_keywords"
  by (simp add: detect_intent_def query_keywords_def analysis_keywords_def rx_eval
      is_decimal_def digit_zeros_def is_arabic_digit_def)

text \<open>
  C10, amended. The classifier answers Query as soon as a query keyword occurs in the
  text, whatever else the text holds; failing that, Analysis if an analysis keyword
  occurs; failing that, Record exactly when the text has a decimal digit of any script
  (the Arabic digits are among them, \<open>arabic_digit_is_decimal\<close>), and Analysis otherwise.
\<close>

theorem detect_intent_priority:
  "detect_intent txt =
     (if \<exists>kw\<in>set query_keywords. occurs_in kw txt then Query
      else if \<exists>kw\<in>set analysis_keywords. occurs_in kw txt then Analysis
      else if \<exists>c\<in>set txt. is_decimal c then Record
      else Analysis)"
  unfolding detect_intent_def re_search_plus_digit list_ex_iff contains_iff by simp

text \<open>The two examples of the specification: a lunch of 120 is a record although it has
  no keyword, and "how much was spent this month" is a query although it has no digit.\<close>

theorem detect_intent_priority_witness:
  "detect_intent txt_lunch_120 = Record \<and> detect_intent txt_this_month = Query"
proof -
  have a: "\<not> (\<exists>kw\<in>set query_keywords. occurs_in kw txt_lunch_120)"
    by (simp add: query_keywords_def contains_iff [symmetric])
  have b: "\<not> (\<exists>kw\<in>set analysis_keywords. occurs_in kw txt_lunch_120)"
    by (simp add: analysis_keywords_def contains_iff [symmetric])
  have c: "\<exists>c\<in>set txt_lunch_120. is_decimal c"
    by (simp add: char_eval)
  have d: "\<exists>kw\<in>set query_keywords. occurs_in kw txt_this_month"
    by (simp add: query_keywords_def contains_iff [symmetric])
  show ?thesis
    using detect_intent_priority [of "txt_lunch_120"] detect_intent_priority [of "txt_this_month"]
      a b c d
    by simp
qed

end
